theory Spec2Isabelle
  imports Complex_Main
begin

section \<open>JavaScript values\<close>

text \<open>
  The SDK is TypeScript; its validators inspect values at run time (\<^verbatim>\<open>typeof\<close>, truthiness,
  \<^verbatim>\<open>!== undefined\<close>), so call parameters, configurations and response bodies are modelled as
  dynamically typed JavaScript values.

  A number is an IEEE double: a finite value (a real here; \<^verbatim>\<open>-0\<close> is identified with \<^verbatim>\<open>0\<close>,
  which every operation of the source except printing treats alike), the two infinities, or NaN.
  A string is a list of code units below 256. An object is a plain object: its own properties
  in insertion order (a name is read at its first entry; the lists that occur have one entry
  for a name); no property is a function, so the only methods are the inherited ones of
  \<^verbatim>\<open>Object.prototype\<close> and \<^verbatim>\<open>Array.prototype\<close>. Functions, symbols and bigints do not occur.
\<close>

datatype jsnum = Fin real | PosInf | NegInf | NaN

datatype jsval =
    JUndefined
  | JNull
  | JBool bool
  | JNum jsnum
  | JStr string
  | JArr "jsval list"
  | JObj "(string \<times> jsval) list"

text \<open>\<^verbatim>\<open>x <= 0\<close> and \<^verbatim>\<open>x < 0\<close> on numbers: every comparison with NaN is false.\<close>

fun num_le0 :: "jsnum \<Rightarrow> bool" where
  "num_le0 (Fin r) = (r \<le> 0)"
| "num_le0 PosInf = False"
| "num_le0 NegInf = True"
| "num_le0 NaN = False"

fun num_lt0 :: "jsnum \<Rightarrow> bool" where
  "num_lt0 (Fin r) = (r < 0)"
| "num_lt0 PosInf = False"
| "num_lt0 NegInf = True"
| "num_lt0 NaN = False"

text \<open>\<^verbatim>\<open>x > 0\<close> and \<^verbatim>\<open>x >= 0\<close>, used to state what the specification asks of a number.\<close>

fun num_gt0 :: "jsnum \<Rightarrow> bool" where
  "num_gt0 (Fin r) = (0 < r)"
| "num_gt0 PosInf = True"
| "num_gt0 NegInf = False"
| "num_gt0 NaN = False"

fun num_ge0 :: "jsnum \<Rightarrow> bool" where
  "num_ge0 (Fin r) = (0 \<le> r)"
| "num_ge0 PosInf = True"
| "num_ge0 NegInf = False"
| "num_ge0 NaN = False"

text \<open>The \<^verbatim>\<open>typeof\<close> operator.\<close>

fun typeof :: "jsval \<Rightarrow> string" where
  "typeof JUndefined = ''undefined''"
| "typeof JNull = ''object''"
| "typeof (JBool b) = ''boolean''"
| "typeof (JNum n) = ''number''"
| "typeof (JStr s) = ''string''"
| "typeof (JArr xs) = ''object''"
| "typeof (JObj ps) = ''object''"

text \<open>Truthiness (ToBoolean): what \<^verbatim>\<open>if (v)\<close>, \<^verbatim>\<open>!v\<close> and \<^verbatim>\<open>v || d\<close> test.\<close>

fun truthy :: "jsval \<Rightarrow> bool" where
  "truthy JUndefined = False"
| "truthy JNull = False"
| "truthy (JBool b) = b"
| "truthy (JNum n) = (n \<noteq> Fin 0 \<and> n \<noteq> NaN)"
| "truthy (JStr s) = (s \<noteq> [])"
| "truthy (JArr xs) = True"
| "truthy (JObj ps) = True"

text \<open>
  Property read \<^verbatim>\<open>v.k\<close> for a value that is neither \<^verbatim>\<open>null\<close> nor \<^verbatim>\<open>undefined\<close> (the source
  guards every read): the own property of an object, \<^verbatim>\<open>undefined\<close> when there is none, and
  \<^verbatim>\<open>undefined\<close> on a primitive or an array for the names the source reads.
\<close>

fun getProp :: "jsval \<Rightarrow> string \<Rightarrow> jsval" where
  "getProp (JObj ps) k = (case map_of ps k of None \<Rightarrow> JUndefined | Some v \<Rightarrow> v)"
| "getProp _ k = JUndefined"

section \<open>Error taxonomy\<close>

text \<open>
  \<^verbatim>\<open>PayStationError(message, statusCode)\<close> and its subclasses \<^verbatim>\<open>ValidationError(message)\<close>
  and \<^verbatim>\<open>AuthenticationError(message, statusCode)\<close>. The message is a string (the \<^verbatim>\<open>Error\<close>
  constructor converts it); the status code is stored as it is passed. No \<^verbatim>\<open>ValidationError\<close>
  of the source is given a field, and its status code is \<^verbatim>\<open>undefined\<close>. \<open>TypeError\<close> is the
  error of the language itself, which a conversion to a string throws on a value that cannot
  be printed.
\<close>

datatype error =
    PayStationError string jsval
  | ValidationError string
  | AuthenticationError string jsval
  | TypeError

text \<open>
  Code that may throw returns \<open>Inl\<close> the error. \<open>bindE m f\<close> runs \<open>f\<close> on the value of \<open>m\<close>
  unless \<open>m\<close> has thrown, and \<open>andThen a b\<close> is the sequence of statements \<^verbatim>\<open>a; b\<close>.
\<close>

definition bindE :: "error + 'a \<Rightarrow> ('a \<Rightarrow> error + 'b) \<Rightarrow> error + 'b" where
  "bindE m f = (case m of Inl e \<Rightarrow> Inl e | Inr v \<Rightarrow> f v)"

definition andThen :: "error + unit \<Rightarrow> error + 'a \<Rightarrow> error + 'a" where
  "andThen a b = (case a of Inl e \<Rightarrow> Inl e | Inr u \<Rightarrow> b)"

section \<open>Conversions\<close>

text \<open>
  Built-ins of the JavaScript platform that the source calls and does not define, taken as
  parameters: the printing of a number (\<^verbatim>\<open>Number.prototype.toString\<close>), the reading of a
  number from a string (\<^verbatim>\<open>Number(s)\<close>), and the URL parser (\<^verbatim>\<open>new URL(s)\<close>), of which the
  source uses only whether it throws (\<open>None\<close>) and the \<^verbatim>\<open>protocol\<close> of the parsed URL.
\<close>

record builtins =
  numberToString :: "jsnum \<Rightarrow> string"
  stringToNumber :: "string \<Rightarrow> jsnum"
  urlProtocol :: "string \<Rightarrow> string option"

fun joinWith :: "string \<Rightarrow> string list \<Rightarrow> string" where
  "joinWith sep [] = []"
| "joinWith sep [x] = x"
| "joinWith sep (x # y # ys) = x @ sep @ joinWith sep (y # ys)"

text \<open>
  \<^verbatim>\<open>String(v)\<close>, which is also what a template literal, \<^verbatim>\<open>x.toString()\<close> on a number,
  \<^verbatim>\<open>regex.test(v)\<close>, \<^verbatim>\<open>new URL(v)\<close>, \<^verbatim>\<open>URLSearchParams.append\<close>, a computed property key
  and the \<^verbatim>\<open>Error\<close> constructor apply to their argument.

  An object is printed by its \<^verbatim>\<open>toString\<close> method. A plain object without an own property of
  that name inherits the method that returns \<^verbatim>\<open>[object Object]\<close>. An own property
  \<^verbatim>\<open>toString\<close> hides it; since no property is a function the conversion then turns to
  \<^verbatim>\<open>valueOf\<close>, which (own and not callable, or inherited and returning the object) yields no
  primitive, and throws a TypeError. An array prints its elements from left to right,
  separated by commas, \<^verbatim>\<open>null\<close> and \<^verbatim>\<open>undefined\<close> elements as the empty string, and throws
  when an element does. \<open>jsStrings\<close> prints the elements of an array.
\<close>

fun jsString :: "builtins \<Rightarrow> jsval \<Rightarrow> error + string"
  and jsStrings :: "builtins \<Rightarrow> jsval list \<Rightarrow> error + string list" where
  "jsString env JUndefined = Inr ''undefined''"
| "jsString env JNull = Inr ''null''"
| "jsString env (JBool b) = Inr (if b then ''true'' else ''false'')"
| "jsString env (JNum n) = Inr (numberToString env n)"
| "jsString env (JStr s) = Inr s"
| "jsString env (JArr xs) =
     (case jsStrings env xs of Inl e \<Rightarrow> Inl e | Inr ss \<Rightarrow> Inr (joinWith '','' ss))"
| "jsString env (JObj ps) =
     (if map_of ps ''toString'' \<noteq> None then Inl TypeError else Inr ''[object Object]'')"
| "jsStrings env [] = Inr []"
| "jsStrings env (x # xs) =
     (case (if x = JUndefined \<or> x = JNull then Inr [] else jsString env x) of
        Inl e \<Rightarrow> Inl e
      | Inr s \<Rightarrow> (case jsStrings env xs of Inl e \<Rightarrow> Inl e | Inr ss \<Rightarrow> Inr (s # ss)))"

text \<open>\<^verbatim>\<open>xs.join(sep)\<close> on an array.\<close>

definition jsJoin :: "builtins \<Rightarrow> string \<Rightarrow> jsval list \<Rightarrow> error + string" where
  "jsJoin env sep xs =
     (case jsStrings env xs of Inl e \<Rightarrow> Inl e | Inr ss \<Rightarrow> Inr (joinWith sep ss))"

text \<open>
  \<^verbatim>\<open>Number(v)\<close> (ToNumber). On an object or an array \<^verbatim>\<open>valueOf\<close> yields no primitive, so the
  number is read from the string that \<^verbatim>\<open>toString\<close> gives, and the conversion throws when
  that one does.
\<close>

fun jsNumber :: "builtins \<Rightarrow> jsval \<Rightarrow> error + jsnum" where
  "jsNumber env (JNum n) = Inr n"
| "jsNumber env JUndefined = Inr NaN"
| "jsNumber env JNull = Inr (Fin 0)"
| "jsNumber env (JBool b) = Inr (if b then Fin 1 else Fin 0)"
| "jsNumber env (JStr s) = Inr (stringToNumber env s)"
| "jsNumber env v = bindE (jsString env v) (\<lambda>s. Inr (stringToNumber env s))"

text \<open>
  White space as \<^verbatim>\<open>String.prototype.trim\<close> and the regular expression class \<^verbatim>\<open>\s\<close> know it
  (WhiteSpace and LineTerminator), among the code units below 256: tab, line feed, vertical
  tab, form feed, carriage return, space, no-break space.
\<close>

definition isWhiteSpace :: "char \<Rightarrow> bool" where
  "isWhiteSpace c \<longleftrightarrow>
     c \<in> {CHR 0x09, CHR 0x0A, CHR 0x0B, CHR 0x0C, CHR 0x0D, CHR 0x20, CHR 0xA0}"

definition trim :: "string \<Rightarrow> string" where
  "trim s = rev (dropWhile isWhiteSpace (rev (dropWhile isWhiteSpace s)))"

section \<open>ConfigManager\<close>

text \<open>\<^verbatim>\<open>Object.values(Environment)\<close> of the string enum \<^verbatim>\<open>Environment\<close>.\<close>

definition Environment_values :: "jsval list" where
  "Environment_values = [JStr ''sandbox'', JStr ''live'']"

definition BASE_URLS :: jsval where
  "BASE_URLS = JObj
     [(''sandbox'', JStr ''https://sandbox.paystation.com.bd/api''),
      (''live'', JStr ''https://api.paystation.com.bd'')]"

text \<open>
  \<^verbatim>\<open>validateConfig\<close>. A \<open>case\<close> on \<open>JStr\<close> is the test \<^verbatim>\<open>typeof v !== 'string'\<close>, and
  membership in \<open>Environment_values\<close> is \<^verbatim>\<open>Object.values(Environment).includes(v)\<close>. The
  message for an unrecognised environment is a template literal that prints the environment
  and then the joined values; printing the environment can throw.
\<close>

definition validateConfig :: "builtins \<Rightarrow> jsval \<Rightarrow> error + unit" where
  "validateConfig env config =
    (if \<not> truthy config then Inl (ValidationError ''Configuration is required'')
     else case getProp config ''merchantId'' of
       JStr m \<Rightarrow>
        (if length (trim m) = 0
         then Inl (ValidationError ''merchantId cannot be empty or whitespace only'')
         else case getProp config ''password'' of
           JStr p \<Rightarrow>
            (if length (trim p) = 0
             then Inl (ValidationError ''password cannot be empty or whitespace only'')
             else if \<not> truthy (getProp config ''environment'')
             then Inl (ValidationError ''environment is required'')
             else if getProp config ''environment'' \<notin> set Environment_values
             then bindE (jsString env (getProp config ''environment'')) (\<lambda>shown.
                  bindE (jsJoin env '', '' Environment_values) (\<lambda>joined.
                    Inl (ValidationError
                      (''Invalid environment: '' @ shown @ ''. Must be one of: '' @ joined))))
             else Inr ())
         | _ \<Rightarrow> Inl (ValidationError ''password is required and must be a non-empty string''))
     | _ \<Rightarrow> Inl (ValidationError ''merchantId is required and must be a non-empty string''))"

text \<open>
  The class holds one private field, the copy \<^verbatim>\<open>{ ...config }\<close> of the validated
  configuration; on a plain object the copy has the properties of the original.
\<close>

record ConfigManager =
  config :: jsval

definition new_ConfigManager :: "builtins \<Rightarrow> jsval \<Rightarrow> error + ConfigManager" where
  "new_ConfigManager env c =
     (case validateConfig env c of
        Inl e \<Rightarrow> Inl e
      | Inr u \<Rightarrow> Inr \<lparr>config = c\<rparr>)"

definition getMerchantId :: "ConfigManager \<Rightarrow> jsval" where
  "getMerchantId cm = getProp (config cm) ''merchantId''"

definition getPassword :: "ConfigManager \<Rightarrow> jsval" where
  "getPassword cm = getProp (config cm) ''password''"

definition getEnvironment :: "ConfigManager \<Rightarrow> jsval" where
  "getEnvironment cm = getProp (config cm) ''environment''"

text \<open>
  \<^verbatim>\<open>BASE_URLS[this.config.environment]\<close>: the key is converted to a string, which can
  throw. The table is read by its two own properties, and by no name that it inherits; a
  constructed manager holds one of the two keys.
\<close>

definition getBaseUrl :: "builtins \<Rightarrow> ConfigManager \<Rightarrow> error + jsval" where
  "getBaseUrl env cm =
     bindE (jsString env (getEnvironment cm)) (\<lambda>key. Inr (getProp BASE_URLS key))"

section \<open>RequestBuilder\<close>

text \<open>The field \<open>httpMethod\<close> is the \<^verbatim>\<open>method\<close> of the source.\<close>

record HttpRequest =
  url :: string
  httpMethod :: string
  headers :: "(string \<times> string) list"
  body :: "(string \<times> string) list"

text \<open>
  \<^verbatim>\<open>URLSearchParams\<close>: the list of name/value pairs in the order of the \<^verbatim>\<open>append\<close> calls.
  \<open>append_param env name v\<close> is the statement \<^verbatim>\<open>formData.append(name, v)\<close>, which converts the
  value to a string, and \<open>onlyIf c stmt\<close> is the statement \<^verbatim>\<open>if (c) { stmt }\<close>; both act on
  the form data and may throw.
\<close>

definition append_param :: "builtins \<Rightarrow> string \<Rightarrow> jsval \<Rightarrow> (string \<times> string) list
    \<Rightarrow> error + (string \<times> string) list" where
  "append_param env name v formData =
     bindE (jsString env v) (\<lambda>s. Inr (formData @ [(name, s)]))"

definition onlyIf :: "bool \<Rightarrow> ('s \<Rightarrow> error + 's) \<Rightarrow> 's \<Rightarrow> error + 's" where
  "onlyIf c stmt s = (if c then stmt s else Inr s)"

text \<open>
  \<^verbatim>\<open>validateRequiredString\<close>: the first branch is \<^verbatim>\<open>typeof value !== 'string'\<close>, the second
  \<^verbatim>\<open>value.trim().length === 0\<close>.
\<close>

definition validateRequiredString :: "jsval \<Rightarrow> string \<Rightarrow> error + unit" where
  "validateRequiredString v fieldName =
     (case v of
        JStr s \<Rightarrow>
          (if length (trim s) = 0
           then Inl (ValidationError (fieldName @ '' cannot be empty or whitespace only''))
           else Inr ())
      | _ \<Rightarrow> Inl (ValidationError (fieldName @ '' is required and must be a string'')))"

text \<open>
  The regular expressions the source needs: a sequence of character classes, each matched once
  or one or more times, anchored at both ends (\<^verbatim>\<open>^\<close> ... \<^verbatim>\<open>$\<close>, no flags). \<open>regex_test\<close> is
  \<^verbatim>\<open>RegExp.prototype.test\<close> on such an expression and a string.
\<close>

datatype quantifier = Once | OneOrMore

fun regex_test :: "((char \<Rightarrow> bool) \<times> quantifier) list \<Rightarrow> string \<Rightarrow> bool" where
  "regex_test [] s = (s = [])"
| "regex_test ((cls, q) # r) [] = False"
| "regex_test ((cls, Once) # r) (c # s) = (cls c \<and> regex_test r s)"
| "regex_test ((cls, OneOrMore) # r) (c # s) =
     (cls c \<and> (regex_test ((cls, OneOrMore) # r) s \<or> regex_test r s))"

text \<open>\<^verbatim>\<open>/^[^\s@]+@[^\s@]+\.[^\s@]+$/\<close>\<close>

definition emailRegex :: "((char \<Rightarrow> bool) \<times> quantifier) list" where
  "emailRegex =
     [(\<lambda>c. \<not> isWhiteSpace c \<and> c \<noteq> CHR ''@'', OneOrMore),
      (\<lambda>c. c = CHR ''@'', Once),
      (\<lambda>c. \<not> isWhiteSpace c \<and> c \<noteq> CHR ''@'', OneOrMore),
      (\<lambda>c. c = CHR ''.'', Once),
      (\<lambda>c. \<not> isWhiteSpace c \<and> c \<noteq> CHR ''@'', OneOrMore)]"

text \<open>
  \<^verbatim>\<open>isValidEmail\<close> and \<^verbatim>\<open>isValidUrl\<close> receive the property as it is; \<^verbatim>\<open>test\<close> and
  \<^verbatim>\<open>new URL\<close> convert it to a string. In \<^verbatim>\<open>isValidUrl\<close> the conversion is inside the
  \<^verbatim>\<open>try\<close>, so whatever it throws gives \<^verbatim>\<open>false\<close>.
\<close>

definition isValidEmail :: "builtins \<Rightarrow> jsval \<Rightarrow> error + bool" where
  "isValidEmail env email = bindE (jsString env email) (\<lambda>s. Inr (regex_test emailRegex s))"

definition isValidUrl :: "builtins \<Rightarrow> jsval \<Rightarrow> bool" where
  "isValidUrl env u =
     (case jsString env u of
        Inl e \<Rightarrow> False
      | Inr s \<Rightarrow>
         (case urlProtocol env s of
            None \<Rightarrow> False
          | Some protocol \<Rightarrow> protocol = ''http:'' \<or> protocol = ''https:''))"

text \<open>
  \<^verbatim>\<open>validateInitiatePaymentParams\<close>. A \<open>case\<close> on \<open>JNum\<close> is the test
  \<^verbatim>\<open>typeof v !== 'number'\<close>.
\<close>

definition validateInitiatePaymentParams :: "builtins \<Rightarrow> jsval \<Rightarrow> error + unit" where
  "validateInitiatePaymentParams env params =
    (if \<not> truthy params then Inl (ValidationError ''Payment parameters are required'')
     else
     andThen (validateRequiredString (getProp params ''invoiceNumber'') ''invoiceNumber'')
    (andThen (validateRequiredString (getProp params ''customerName'') ''customerName'')
    (andThen (validateRequiredString (getProp params ''customerPhone'') ''customerPhone'')
    (andThen (validateRequiredString (getProp params ''customerEmail'') ''customerEmail'')
    (andThen (validateRequiredString (getProp params ''callbackUrl'') ''callbackUrl'')
    (andThen
       (case getProp params ''paymentAmount'' of
          JNum n \<Rightarrow>
            (if num_le0 n then Inl (ValidationError ''paymentAmount must be greater than 0'')
             else Inr ())
        | _ \<Rightarrow> Inl (ValidationError ''paymentAmount must be a number''))
    (andThen
       (if getProp params ''payWithCharge'' \<noteq> JUndefined then
          (case getProp params ''payWithCharge'' of
             JNum n \<Rightarrow>
               (if num_lt0 n then Inl (ValidationError ''payWithCharge cannot be negative'')
                else Inr ())
           | _ \<Rightarrow> Inl (ValidationError ''payWithCharge must be a number''))
        else Inr ())
    (andThen
       (if getProp params ''emi'' \<noteq> JUndefined then
          (case getProp params ''emi'' of
             JNum n \<Rightarrow>
               (if num_lt0 n then Inl (ValidationError ''emi cannot be negative'')
                else Inr ())
           | _ \<Rightarrow> Inl (ValidationError ''emi must be a number''))
        else Inr ())
    (andThen
       (bindE (isValidEmail env (getProp params ''customerEmail'')) (\<lambda>valid.
          if \<not> valid
          then Inl (ValidationError ''customerEmail must be a valid email address'')
          else Inr ()))
       (if \<not> isValidUrl env (getProp params ''callbackUrl'')
        then Inl (ValidationError ''callbackUrl must be a valid URL'')
        else Inr ()))))))))))"

definition validateInvoiceNumber :: "jsval \<Rightarrow> error + unit" where
  "validateInvoiceNumber invoiceNumber = validateRequiredString invoiceNumber ''invoiceNumber''"

definition validateTransactionId :: "jsval \<Rightarrow> error + unit" where
  "validateTransactionId transactionId = validateRequiredString transactionId ''transactionId''"

definition requestHeaders :: "(string \<times> string) list" where
  "requestHeaders =
     [(''Content-Type'', ''application/x-www-form-urlencoded''),
      (''Accept'', ''application/json'')]"

text \<open>
  The three builders. The configuration manager is their \<^verbatim>\<open>this.configManager\<close>. The URL is a
  template literal, which prints the base URL. Where the source appends \<^verbatim>\<open>x.toString()\<close> for
  a number \<open>x\<close> that has passed validation, the model appends \<open>x\<close>: the conversion of
  \<open>append_param\<close> is the same printing.
\<close>

definition buildInitiatePaymentRequest ::
    "builtins \<Rightarrow> ConfigManager \<Rightarrow> jsval \<Rightarrow> error + HttpRequest" where
  "buildInitiatePaymentRequest env cm params =
    andThen (validateInitiatePaymentParams env params)
   (bindE (getBaseUrl env cm) (\<lambda>baseUrl.
    bindE (jsString env baseUrl) (\<lambda>base.
    bindE (append_param env ''merchant_id'' (getMerchantId cm) []) (\<lambda>formData.
    bindE (append_param env ''password'' (getPassword cm) formData) (\<lambda>formData.
    bindE (append_param env ''invoice_number''
             (getProp params ''invoiceNumber'') formData) (\<lambda>formData.
    bindE (append_param env ''payment_amount''
             (getProp params ''paymentAmount'') formData) (\<lambda>formData.
    bindE (append_param env ''customer_name''
             (getProp params ''customerName'') formData) (\<lambda>formData.
    bindE (append_param env ''customer_phone''
             (getProp params ''customerPhone'') formData) (\<lambda>formData.
    bindE (append_param env ''customer_email''
             (getProp params ''customerEmail'') formData) (\<lambda>formData.
    bindE (append_param env ''callback_url''
             (getProp params ''callbackUrl'') formData) (\<lambda>formData.
    bindE (onlyIf (truthy (getProp params ''currency''))
             (append_param env ''currency'' (getProp params ''currency''))
             formData) (\<lambda>formData.
    bindE (onlyIf (getProp params ''payWithCharge'' \<noteq> JUndefined)
             (append_param env ''pay_with_charge'' (getProp params ''payWithCharge''))
             formData) (\<lambda>formData.
    bindE (onlyIf (truthy (getProp params ''reference''))
             (append_param env ''reference'' (getProp params ''reference''))
             formData) (\<lambda>formData.
    bindE (onlyIf (truthy (getProp params ''customerAddress''))
             (append_param env ''customer_address'' (getProp params ''customerAddress''))
             formData) (\<lambda>formData.
    bindE (onlyIf (truthy (getProp params ''checkoutItems''))
             (append_param env ''checkout_items'' (getProp params ''checkoutItems''))
             formData) (\<lambda>formData.
    bindE (onlyIf (truthy (getProp params ''optA''))
             (append_param env ''opt_a'' (getProp params ''optA'')) formData) (\<lambda>formData.
    bindE (onlyIf (truthy (getProp params ''optB''))
             (append_param env ''opt_b'' (getProp params ''optB'')) formData) (\<lambda>formData.
    bindE (onlyIf (truthy (getProp params ''optC''))
             (append_param env ''opt_c'' (getProp params ''optC'')) formData) (\<lambda>formData.
    bindE (onlyIf (getProp params ''emi'' \<noteq> JUndefined)
             (append_param env ''emi'' (getProp params ''emi'')) formData) (\<lambda>formData.
    Inr \<lparr> url = base @ ''/initiate-payment'', httpMethod = ''POST'',
          headers = requestHeaders, body = formData \<rparr>))))))))))))))))))))"

definition buildTransactionStatusRequest ::
    "builtins \<Rightarrow> ConfigManager \<Rightarrow> jsval \<Rightarrow> error + HttpRequest" where
  "buildTransactionStatusRequest env cm invoiceNumber =
    andThen (validateInvoiceNumber invoiceNumber)
   (bindE (getBaseUrl env cm) (\<lambda>baseUrl.
    bindE (jsString env baseUrl) (\<lambda>base.
    bindE (append_param env ''merchant_id'' (getMerchantId cm) []) (\<lambda>formData.
    bindE (append_param env ''password'' (getPassword cm) formData) (\<lambda>formData.
    bindE (append_param env ''invoice_number'' invoiceNumber formData) (\<lambda>formData.
    Inr \<lparr> url = base @ ''/transaction-status'', httpMethod = ''POST'',
          headers = requestHeaders, body = formData \<rparr>))))))"

definition buildTransactionStatusByIdRequest ::
    "builtins \<Rightarrow> ConfigManager \<Rightarrow> jsval \<Rightarrow> error + HttpRequest" where
  "buildTransactionStatusByIdRequest env cm transactionId =
    andThen (validateTransactionId transactionId)
   (bindE (getBaseUrl env cm) (\<lambda>baseUrl.
    bindE (jsString env baseUrl) (\<lambda>base.
    bindE (append_param env ''merchant_id'' (getMerchantId cm) []) (\<lambda>formData.
    bindE (append_param env ''password'' (getPassword cm) formData) (\<lambda>formData.
    bindE (append_param env ''trx_id'' transactionId formData) (\<lambda>formData.
    Inr \<lparr> url = base @ ''/v2/transaction-status'', httpMethod = ''POST'',
          headers = requestHeaders, body = formData \<rparr>))))))"

section \<open>ResponseParser\<close>

record HttpResponse =
  status :: jsnum
  statusText :: string
  data :: jsval

text \<open>\<^verbatim>\<open>a || b\<close> on values, and on the \<^verbatim>\<open>string | null\<close> that \<^verbatim>\<open>extractErrorMessage\<close> returns.\<close>

definition jsOr :: "jsval \<Rightarrow> jsval \<Rightarrow> jsval" where
  "jsOr a b = (if truthy a then a else b)"

definition orDefault :: "string option \<Rightarrow> string \<Rightarrow> string" where
  "orDefault m d = (case m of None \<Rightarrow> d | Some s \<Rightarrow> if s = [] then d else s)"

text \<open>
  The statement \<^verbatim>\<open>obj.k = v\<close>, on the property list of an object: an existing property keeps
  its place, a new one goes last. \<open>setString env k v\<close> is the statement \<^verbatim>\<open>obj.k = String(v)\<close>
  and \<open>setNumber env k v\<close> the statement \<^verbatim>\<open>obj.k = Number(v)\<close>, which may throw; \<open>setValue\<close>
  is the assignment as a statement that does not.
\<close>

fun setProp :: "string \<Rightarrow> jsval \<Rightarrow> (string \<times> jsval) list \<Rightarrow> (string \<times> jsval) list" where
  "setProp k v [] = [(k, v)]"
| "setProp k v ((k', v') # ps) = (if k' = k then (k, v) # ps else (k', v') # setProp k v ps)"

definition setValue :: "string \<Rightarrow> jsval \<Rightarrow> (string \<times> jsval) list
    \<Rightarrow> error + (string \<times> jsval) list" where
  "setValue k v obj = Inr (setProp k v obj)"

definition setString :: "builtins \<Rightarrow> string \<Rightarrow> jsval \<Rightarrow> (string \<times> jsval) list
    \<Rightarrow> error + (string \<times> jsval) list" where
  "setString env k v obj = bindE (jsString env v) (\<lambda>s. Inr (setProp k (JStr s) obj))"

definition setNumber :: "builtins \<Rightarrow> string \<Rightarrow> jsval \<Rightarrow> (string \<times> jsval) list
    \<Rightarrow> error + (string \<times> jsval) list" where
  "setNumber env k v obj = bindE (jsNumber env v) (\<lambda>n. Inr (setProp k (JNum n) obj))"

text \<open>
  \<^verbatim>\<open>validateResponseStructure\<close>. The response is \<open>None\<close> when it is \<^verbatim>\<open>null\<close> or
  \<^verbatim>\<open>undefined\<close>. The source returns nothing and its callers read \<^verbatim>\<open>response.data\<close> next;
  the model returns that body.
\<close>

definition validateResponseStructure :: "HttpResponse option \<Rightarrow> error + jsval" where
  "validateResponseStructure response =
     (case response of
        None \<Rightarrow> Inl (ValidationError ''Response is null or undefined'')
      | Some r \<Rightarrow>
         (if data r = JNull \<or> data r = JUndefined
          then Inl (ValidationError ''Response data is null or undefined'')
          else if typeof (data r) \<noteq> ''object''
          then Inl (ValidationError ''Response data is not an object'')
          else Inr (data r)))"

definition missingFieldsMessage :: string where
  "missingFieldsMessage =
     ''Invalid response format: missing required fields (statusCode, status, message)''"

text \<open>
  The two parsers. \<^verbatim>\<open>new PayStationError(data.message, data.statusCode)\<close> prints the message
  in the \<^verbatim>\<open>Error\<close> constructor; the object literal of the result evaluates
  \<^verbatim>\<open>String(data.statusCode)\<close> and then \<^verbatim>\<open>String(data.message)\<close>.
\<close>

definition parseInitiatePaymentResponse ::
    "builtins \<Rightarrow> HttpResponse option \<Rightarrow> error + jsval" where
  "parseInitiatePaymentResponse env response =
    bindE (validateResponseStructure response) (\<lambda>d.
      if \<not> truthy (getProp d ''statusCode'') \<or> \<not> truthy (getProp d ''status'')
          \<or> \<not> truthy (getProp d ''message'')
      then Inl (ValidationError missingFieldsMessage)
      else if getProp d ''status'' = JStr ''failed''
      then bindE (jsString env (getProp d ''message'')) (\<lambda>message.
             Inl (PayStationError message (getProp d ''statusCode'')))
      else
        bindE (jsString env (getProp d ''statusCode'')) (\<lambda>statusCode.
        bindE (jsString env (getProp d ''message'')) (\<lambda>message.
        bindE (Inr [(''statusCode'', JStr statusCode),
                    (''status'', getProp d ''status''),
                    (''message'', JStr message)]) (\<lambda>parsedResponse.
        bindE (onlyIf (getProp d ''paymentAmount'' \<noteq> JUndefined)
                 (setString env ''paymentAmount'' (getProp d ''paymentAmount''))
                 parsedResponse) (\<lambda>parsedResponse.
        bindE (onlyIf (getProp d ''invoiceNumber'' \<noteq> JUndefined)
                 (setString env ''invoiceNumber'' (getProp d ''invoiceNumber''))
                 parsedResponse) (\<lambda>parsedResponse.
        bindE (onlyIf (getProp d ''paymentUrl'' \<noteq> JUndefined)
                 (setString env ''paymentUrl'' (getProp d ''paymentUrl''))
                 parsedResponse) (\<lambda>parsedResponse.
        Inr (JObj parsedResponse))))))))"

definition parseTransactionData :: "builtins \<Rightarrow> jsval \<Rightarrow> error + jsval" where
  "parseTransactionData env d =
    (if \<not> truthy d \<or> typeof d \<noteq> ''object''
     then Inl (ValidationError ''Invalid transaction data format'')
     else if \<not> truthy (getProp d ''invoiceNumber'') \<or> \<not> truthy (getProp d ''transactionStatus'')
        \<or> \<not> truthy (getProp d ''transactionId'')
     then Inl (ValidationError ''Invalid transaction data: missing required fields'')
     else
       bindE (jsString env (getProp d ''invoiceNumber'')) (\<lambda>invoiceNumber.
       bindE (jsString env (getProp d ''transactionId'')) (\<lambda>transactionId.
       bindE (jsString env (jsOr (getProp d ''paymentAmount'') (JStr []))) (\<lambda>paymentAmount.
       bindE (jsString env (jsOr (getProp d ''orderDateTime'') (JStr []))) (\<lambda>orderDateTime.
       bindE (Inr [(''invoiceNumber'', JStr invoiceNumber),
                   (''transactionStatus'', getProp d ''transactionStatus''),
                   (''transactionId'', JStr transactionId),
                   (''paymentAmount'', JStr paymentAmount),
                   (''orderDateTime'', JStr orderDateTime)]) (\<lambda>transactionData.
       bindE (onlyIf (getProp d ''payerMobileNumber'' \<noteq> JUndefined)
                (setString env ''payerMobileNumber'' (getProp d ''payerMobileNumber''))
                transactionData) (\<lambda>transactionData.
       bindE (onlyIf (getProp d ''paymentMethod'' \<noteq> JUndefined)
                (setValue ''paymentMethod'' (getProp d ''paymentMethod''))
                transactionData) (\<lambda>transactionData.
       bindE (onlyIf (getProp d ''reference'' \<noteq> JUndefined)
                (setString env ''reference'' (getProp d ''reference''))
                transactionData) (\<lambda>transactionData.
       bindE (onlyIf (getProp d ''checkoutItems'' \<noteq> JUndefined)
                (setString env ''checkoutItems'' (getProp d ''checkoutItems''))
                transactionData) (\<lambda>transactionData.
       bindE (onlyIf (getProp d ''transactionAmount'' \<noteq> JUndefined)
                (setNumber env ''transactionAmount'' (getProp d ''transactionAmount''))
                transactionData) (\<lambda>transactionData.
       bindE (onlyIf (getProp d ''transactionDate'' \<noteq> JUndefined)
                (setString env ''transactionDate'' (getProp d ''transactionDate''))
                transactionData) (\<lambda>transactionData.
       bindE (onlyIf (getProp d ''requestAmount'' \<noteq> JUndefined)
                (setString env ''requestAmount'' (getProp d ''requestAmount''))
                transactionData) (\<lambda>transactionData.
       Inr (JObj transactionData))))))))))))))"

definition parseTransactionStatusResponse ::
    "builtins \<Rightarrow> HttpResponse option \<Rightarrow> error + jsval" where
  "parseTransactionStatusResponse env response =
    bindE (validateResponseStructure response) (\<lambda>d.
      if \<not> truthy (getProp d ''statusCode'') \<or> \<not> truthy (getProp d ''status'')
          \<or> \<not> truthy (getProp d ''message'')
      then Inl (ValidationError missingFieldsMessage)
      else if getProp d ''status'' = JStr ''failed''
      then bindE (jsString env (getProp d ''message'')) (\<lambda>message.
             Inl (PayStationError message (getProp d ''statusCode'')))
      else
        bindE (jsString env (getProp d ''statusCode'')) (\<lambda>statusCode.
        bindE (jsString env (getProp d ''message'')) (\<lambda>message.
        bindE (Inr [(''statusCode'', JStr statusCode),
                    (''status'', getProp d ''status''),
                    (''message'', JStr message)]) (\<lambda>parsedResponse.
        if truthy (getProp d ''data'')
        then bindE (parseTransactionData env (getProp d ''data'')) (\<lambda>t.
               Inr (JObj (setProp ''data'' t parsedResponse)))
        else Inr (JObj parsedResponse)))))"

text \<open>
  \<^verbatim>\<open>extractErrorMessage\<close>; \<open>None\<close> is its \<^verbatim>\<open>null\<close>. Its body is inside a \<^verbatim>\<open>try\<close>: when
  \<^verbatim>\<open>String(data.message)\<close> throws, the \<^verbatim>\<open>catch\<close> branch returns \<^verbatim>\<open>null\<close>.
\<close>

definition extractErrorMessage :: "builtins \<Rightarrow> HttpResponse \<Rightarrow> string option" where
  "extractErrorMessage env response =
     (let d = data response
      in if truthy d \<and> typeof d = ''object'' \<and> truthy (getProp d ''message'')
         then (case jsString env (getProp d ''message'') of
                 Inl e \<Rightarrow> None
               | Inr s \<Rightarrow> Some s)
         else None)"

text \<open>
  \<^verbatim>\<open>parseErrorResponse\<close> never returns: its value is the error it throws. The status of a
  response is a number, which \<^verbatim>\<open>String\<close> and the template literal print.
\<close>

definition parseErrorResponse :: "builtins \<Rightarrow> HttpResponse \<Rightarrow> error" where
  "parseErrorResponse env response =
     (if status response = Fin 401 \<or> status response = Fin 403
      then AuthenticationError
             (orDefault (extractErrorMessage env response) ''Authentication failed'')
             (JStr (numberToString env (status response)))
      else if status response = Fin 400
      then ValidationError
             (orDefault (extractErrorMessage env response) ''Invalid request parameters'')
      else PayStationError
             (orDefault (extractErrorMessage env response)
                (''HTTP '' @ numberToString env (status response) @ '': ''
                 @ statusText response))
             (JStr (numberToString env (status response))))"

text \<open>
  A sample instance of the built-ins, used only to evaluate the model at concrete inputs: it
  prints the numbers that occur there and reads the scheme off a URL that starts with one of
  three schemes followed by \<^verbatim>\<open>://\<close> and a host.
\<close>

definition sample_builtins :: builtins where
  "sample_builtins =
     \<lparr> numberToString = (\<lambda>n. if n = Fin 401 then ''401'' else if n = Fin 400 then ''400''
          else if n = Fin 500 then ''500'' else if n = Fin 200 then ''200''
          else if n = Fin 100 then ''100'' else if n = NaN then ''NaN'' else ''0''),
       stringToNumber = (\<lambda>s. NaN),
       urlProtocol = (\<lambda>u. if take 8 u = ''https://'' \<and> 8 < length u then Some ''https:''
          else if take 7 u = ''http://'' \<and> 7 < length u then Some ''http:''
          else if take 6 u = ''ftp://'' \<and> 6 < length u then Some ''ftp:''
          else None) \<rparr>"

text \<open>
  Sample inputs, used like \<open>sample_builtins\<close>: a configuration, and call parameters with a
  given paymentAmount (100 in \<open>sample_params\<close>).
\<close>

definition sample_config :: jsval where
  "sample_config = JObj [(''merchantId'', JStr ''m1''), (''password'', JStr ''pw''),
     (''environment'', JStr ''sandbox'')]"

definition sample_params_amount :: "jsnum \<Rightarrow> (string \<times> jsval) list" where
  "sample_params_amount n =
     [(''invoiceNumber'', JStr ''INV-1''), (''paymentAmount'', JNum n),
      (''customerName'', JStr ''John Doe''), (''customerPhone'', JStr ''017''),
      (''customerEmail'', JStr ''a@b.io''),
      (''callbackUrl'', JStr ''https://x.com/cb'')]"

definition sample_params :: "(string \<times> jsval) list" where
  "sample_params = sample_params_amount (Fin 100)"

text \<open>A value that cannot be printed: the object \<^verbatim>\<open>{toString: 1}\<close>.\<close>

definition unprintable :: jsval where
  "unprintable = JObj [(''toString'', JNum (Fin 1))]"

section \<open>What the specification asks\<close>

text \<open>A value is printable when \<^verbatim>\<open>String\<close> returns on it; every primitive value is.\<close>

definition printable :: "builtins \<Rightarrow> jsval \<Rightarrow> bool" where
  "printable env v \<longleftrightarrow> \<not> isl (jsString env v)"

subsection \<open>Of a configuration\<close>

text \<open>
  The specification's conditions, in its words: a credential is rejected when it is missing,
  not a string, or empty or whitespace-only; the configuration is rejected when it is absent,
  when a credential is rejected, or when the environment is absent or not one of the two
  recognised values.
\<close>

definition credential_rejected :: "jsval \<Rightarrow> bool" where
  "credential_rejected v \<longleftrightarrow>
     (case v of JStr s \<Rightarrow> list_all isWhiteSpace s | _ \<Rightarrow> True)"

definition config_rejected :: "jsval \<Rightarrow> bool" where
  "config_rejected c \<longleftrightarrow>
     c = JUndefined \<or> c = JNull
     \<or> credential_rejected (getProp c ''merchantId'')
     \<or> credential_rejected (getProp c ''password'')
     \<or> getProp c ''environment'' = JUndefined
     \<or> getProp c ''environment'' \<notin> {JStr ''sandbox'', JStr ''live''}"

subsection \<open>Of call parameters\<close>

text \<open>
  A required string is of string type and not empty after trimming; an optional amount is
  absent or a number \<^verbatim>\<open>>= 0\<close>; an optional string is absent or a string, and more generally
  any value that can be printed. The parameters of a payment are valid when they are present,
  the five required strings are, paymentAmount is a number \<^verbatim>\<open>> 0\<close>, payWithCharge and emi are
  optional amounts, customerEmail matches the email pattern, callbackUrl parses as an http
  or https URL, and the seven optional strings are. \<open>other_fields_valid\<close> is all of this but
  the condition on paymentAmount.
\<close>

definition required_string_ok :: "jsval \<Rightarrow> bool" where
  "required_string_ok v \<longleftrightarrow> (case v of JStr s \<Rightarrow> trim s \<noteq> [] | _ \<Rightarrow> False)"

definition optional_amount_ok :: "jsval \<Rightarrow> bool" where
  "optional_amount_ok v \<longleftrightarrow>
     (case v of JUndefined \<Rightarrow> True | JNum n \<Rightarrow> num_ge0 n | _ \<Rightarrow> False)"

definition optional_strings_ok :: "builtins \<Rightarrow> jsval \<Rightarrow> bool" where
  "optional_strings_ok env p \<longleftrightarrow>
     list_all (\<lambda>field. printable env (getProp p field))
       [''currency'', ''reference'', ''customerAddress'', ''checkoutItems'',
        ''optA'', ''optB'', ''optC'']"

definition other_fields_valid :: "builtins \<Rightarrow> jsval \<Rightarrow> bool" where
  "other_fields_valid env p \<longleftrightarrow>
     p \<noteq> JUndefined \<and> p \<noteq> JNull
     \<and> required_string_ok (getProp p ''invoiceNumber'')
     \<and> required_string_ok (getProp p ''customerName'')
     \<and> required_string_ok (getProp p ''customerPhone'')
     \<and> required_string_ok (getProp p ''customerEmail'')
     \<and> required_string_ok (getProp p ''callbackUrl'')
     \<and> optional_amount_ok (getProp p ''payWithCharge'')
     \<and> optional_amount_ok (getProp p ''emi'')
     \<and> isValidEmail env (getProp p ''customerEmail'') = Inr True
     \<and> isValidUrl env (getProp p ''callbackUrl'')
     \<and> optional_strings_ok env p"

definition valid_params :: "builtins \<Rightarrow> jsval \<Rightarrow> bool" where
  "valid_params env p \<longleftrightarrow>
     other_fields_valid env p
     \<and> (case getProp p ''paymentAmount'' of JNum n \<Rightarrow> num_gt0 n | _ \<Rightarrow> False)"

text \<open>
  The rules in the order in which the specification lists them, the first rule that given
  parameters violate, and the messages by which a ValidationError identifies a rule.
  \<open>agrees_with_rules\<close> says that the validator throws nothing when no rule is violated and
  otherwise throws a ValidationError with a message of the first violated rule.
\<close>

datatype rule =
    ParamsPresent
  | RequiredString string
  | PaymentAmountPositive
  | PayWithChargeNonNegative
  | EmiNonNegative
  | EmailPattern
  | CallbackUrlHttp

fun rule_holds :: "builtins \<Rightarrow> jsval \<Rightarrow> rule \<Rightarrow> bool" where
  "rule_holds env p ParamsPresent = (p \<noteq> JUndefined \<and> p \<noteq> JNull)"
| "rule_holds env p (RequiredString f) = required_string_ok (getProp p f)"
| "rule_holds env p PaymentAmountPositive =
     (case getProp p ''paymentAmount'' of JNum n \<Rightarrow> num_gt0 n | _ \<Rightarrow> False)"
| "rule_holds env p PayWithChargeNonNegative = optional_amount_ok (getProp p ''payWithCharge'')"
| "rule_holds env p EmiNonNegative = optional_amount_ok (getProp p ''emi'')"
| "rule_holds env p EmailPattern = (isValidEmail env (getProp p ''customerEmail'') = Inr True)"
| "rule_holds env p CallbackUrlHttp = isValidUrl env (getProp p ''callbackUrl'')"

definition rule_order :: "rule list" where
  "rule_order =
     [ParamsPresent, RequiredString ''invoiceNumber'', RequiredString ''customerName'',
      RequiredString ''customerPhone'', RequiredString ''customerEmail'',
      RequiredString ''callbackUrl'', PaymentAmountPositive, PayWithChargeNonNegative,
      EmiNonNegative, EmailPattern, CallbackUrlHttp]"

definition first_violation :: "builtins \<Rightarrow> jsval \<Rightarrow> rule option" where
  "first_violation env p = find (\<lambda>r. \<not> rule_holds env p r) rule_order"

fun rule_messages :: "rule \<Rightarrow> string list" where
  "rule_messages ParamsPresent = [''Payment parameters are required'']"
| "rule_messages (RequiredString f) =
     [f @ '' is required and must be a string'', f @ '' cannot be empty or whitespace only'']"
| "rule_messages PaymentAmountPositive =
     [''paymentAmount must be a number'', ''paymentAmount must be greater than 0'']"
| "rule_messages PayWithChargeNonNegative =
     [''payWithCharge must be a number'', ''payWithCharge cannot be negative'']"
| "rule_messages EmiNonNegative = [''emi must be a number'', ''emi cannot be negative'']"
| "rule_messages EmailPattern = [''customerEmail must be a valid email address'']"
| "rule_messages CallbackUrlHttp = [''callbackUrl must be a valid URL'']"

definition agrees_with_rules :: "builtins \<Rightarrow> jsval \<Rightarrow> bool" where
  "agrees_with_rules env p \<longleftrightarrow>
     (case first_violation env p of
        None \<Rightarrow> validateInitiatePaymentParams env p = Inr ()
      | Some r \<Rightarrow> list_ex (\<lambda>m. validateInitiatePaymentParams env p = Inl (ValidationError m))
                    (rule_messages r))"

subsection \<open>Of the body of a payment request\<close>

definition required_keys :: "string set" where
  "required_keys = {''merchant_id'', ''password'', ''invoice_number'', ''payment_amount'',
     ''customer_name'', ''customer_phone'', ''customer_email'', ''callback_url''}"

text \<open>
  The optional fields with their keys, and the keys of those present in the parameters: a
  field is present when reading it does not give \<^verbatim>\<open>undefined\<close>.
\<close>

definition optional_fields :: "(string \<times> string) list" where
  "optional_fields =
     [(''currency'', ''currency''), (''payWithCharge'', ''pay_with_charge''),
      (''reference'', ''reference''), (''customerAddress'', ''customer_address''),
      (''checkoutItems'', ''checkout_items''), (''optA'', ''opt_a''), (''optB'', ''opt_b''),
      (''optC'', ''opt_c''), (''emi'', ''emi'')]"

definition present_optional_keys :: "jsval \<Rightarrow> string list" where
  "present_optional_keys p =
     map snd (filter (\<lambda>f. getProp p (fst f) \<noteq> JUndefined) optional_fields)"

text \<open>
  The keys of the optional fields that the builder sends: a string field when its value is
  truthy, a numeric field (payWithCharge, emi) when it is not \<^verbatim>\<open>undefined\<close>.
\<close>

definition sent_optional_keys :: "jsval \<Rightarrow> string set" where
  "sent_optional_keys p =
       (if truthy (getProp p ''currency'') then {''currency''} else {})
     \<union> (if getProp p ''payWithCharge'' \<noteq> JUndefined then {''pay_with_charge''} else {})
     \<union> (if truthy (getProp p ''reference'') then {''reference''} else {})
     \<union> (if truthy (getProp p ''customerAddress'') then {''customer_address''} else {})
     \<union> (if truthy (getProp p ''checkoutItems'') then {''checkout_items''} else {})
     \<union> (if truthy (getProp p ''optA'') then {''opt_a''} else {})
     \<union> (if truthy (getProp p ''optB'') then {''opt_b''} else {})
     \<union> (if truthy (getProp p ''optC'') then {''opt_c''} else {})
     \<union> (if getProp p ''emi'' \<noteq> JUndefined then {''emi''} else {})"

subsection \<open>Of the message of an error response\<close>

text \<open>
  What \<^verbatim>\<open>extractErrorMessage(response) || dflt\<close> comes to: the message of the body is used when
  the body is an object (not \<^verbatim>\<open>null\<close>) whose \<^verbatim>\<open>message\<close> is truthy, can be printed and does
  not print as the empty string; the default is used otherwise.
\<close>

definition usable_message :: "builtins \<Rightarrow> HttpResponse \<Rightarrow> bool" where
  "usable_message env r \<longleftrightarrow>
     typeof (data r) = ''object'' \<and> data r \<noteq> JNull
     \<and> truthy (getProp (data r) ''message'')
     \<and> (case jsString env (getProp (data r) ''message'') of
           Inl e \<Rightarrow> False
         | Inr s \<Rightarrow> s \<noteq> [])"

definition message_or :: "builtins \<Rightarrow> HttpResponse \<Rightarrow> string \<Rightarrow> string" where
  "message_or env r dflt =
     (if usable_message env r
      then (case jsString env (getProp (data r) ''message'') of Inl e \<Rightarrow> dflt | Inr s \<Rightarrow> s)
      else dflt)"

section \<open>Strings that pass for empty\<close>

lemma trim_empty_iff: "trim s = [] \<longleftrightarrow> (\<forall>c \<in> set s. isWhiteSpace c)"
proof
  assume t: "trim s = []"
  have "dropWhile isWhiteSpace s = []"
  proof (rule ccontr)
    assume ne: "dropWhile isWhiteSpace s \<noteq> []"
    then have "\<not> isWhiteSpace (hd (dropWhile isWhiteSpace s))"
      by (rule hd_dropWhile)
    moreover have "hd (dropWhile isWhiteSpace s) \<in> set (dropWhile isWhiteSpace s)"
      using ne by simp
    moreover have "dropWhile isWhiteSpace (rev (dropWhile isWhiteSpace s)) = []"
      using t by (simp add: trim_def)
    then have "\<forall>c \<in> set (dropWhile isWhiteSpace s). isWhiteSpace c"
      unfolding dropWhile_eq_Nil_conv by simp
    ultimately show False by blast
  qed
  then show "\<forall>c \<in> set s. isWhiteSpace c"
    unfolding dropWhile_eq_Nil_conv .
next
  assume "\<forall>c \<in> set s. isWhiteSpace c"
  then have d: "dropWhile isWhiteSpace s = []"
    unfolding dropWhile_eq_Nil_conv .
  show "trim s = []"
    by (simp only: trim_def d rev.simps dropWhile.simps)
qed

section \<open>Sequencing\<close>

lemma bindE_Inr [simp]: "bindE (Inr v) f = f v"
  by (simp add: bindE_def)

lemma bindE_Inl [simp]: "bindE (Inl e) f = Inl e"
  by (simp add: bindE_def)

lemma bindE_InrE:
  assumes "bindE m f = Inr res"
  obtains v where "m = Inr v" and "f v = Inr res"
  using assms by (cases m) simp_all

lemma andThen_Inr [simp]: "andThen (Inr u) b = b"
  by (simp add: andThen_def)

lemma andThen_Inl [simp]: "andThen (Inl e) b = Inl e"
  by (simp add: andThen_def)

lemma printable_simps [simp]:
  "printable env JUndefined" "printable env JNull" "printable env (JBool b)"
  "printable env (JNum n)" "printable env (JStr s)"
  by (simp_all add: printable_def)

lemma printable_obtain:
  assumes "printable env v"
  obtains s where "jsString env v = Inr s"
  using assms by (cases "jsString env v") (simp_all add: printable_def)

lemma unprintable_jsString [simp]: "jsString env unprintable = Inl TypeError"
  by (simp add: unprintable_def)

section \<open>Construction of the configuration manager\<close>

lemma join_Environment_values:
  "jsJoin env '', '' Environment_values = Inr ''sandbox, live''"
  "jsJoin env '', '' [JStr ''sandbox'', JStr ''live''] = Inr ''sandbox, live''"
  by (simp_all add: jsJoin_def Environment_values_def)

lemma validateConfig_rejected:
  assumes "config_rejected c"
  shows "\<exists>e. validateConfig env c = Inl e"
    and "credential_rejected (getProp c ''merchantId'')
         \<or> credential_rejected (getProp c ''password'')
         \<or> printable env (getProp c ''environment'')
         \<Longrightarrow> \<exists>m. validateConfig env c = Inl (ValidationError m)"
proof -
  show "\<exists>e. validateConfig env c = Inl e"
    using assms
    by (cases c; cases "getProp c ''merchantId''"; cases "getProp c ''password''";
        cases "jsString env (getProp c ''environment'')")
       (auto simp: validateConfig_def config_rejected_def credential_rejected_def
          trim_empty_iff list_all_iff join_Environment_values Environment_values_def)
next
  assume "credential_rejected (getProp c ''merchantId'')
         \<or> credential_rejected (getProp c ''password'')
         \<or> printable env (getProp c ''environment'')"
  then show "\<exists>m. validateConfig env c = Inl (ValidationError m)"
    using assms
    by (cases c; cases "getProp c ''merchantId''"; cases "getProp c ''password''";
        cases "jsString env (getProp c ''environment'')")
       (auto simp: validateConfig_def config_rejected_def credential_rejected_def
          trim_empty_iff list_all_iff join_Environment_values Environment_values_def
          printable_def)
qed

lemma validateConfig_accepted:
  "\<not> config_rejected c \<Longrightarrow> validateConfig env c = Inr ()"
  by (cases c; cases "getProp c ''merchantId''"; cases "getProp c ''password''")
     (auto simp: validateConfig_def config_rejected_def credential_rejected_def
        trim_empty_iff list_all_iff Environment_values_def)




section \<open>Response parsing\<close>

lemma map_of_setProp:
  "map_of (setProp k v ps) k' = (if k' = k then Some v else map_of ps k')"
  by (induction ps) auto

lemma getProp_setProp:
  "getProp (JObj (setProp k v ps)) k' = (if k' = k then v else getProp (JObj ps) k')"
  by (simp add: map_of_setProp)

lemma validateResponseStructure_object:
  "data r = JObj ps \<Longrightarrow> validateResponseStructure (Some r) = Inr (JObj ps)"
  by (simp add: validateResponseStructure_def)

text \<open>A conditional assignment of a printed value returns when the value can be printed.\<close>

lemma onlyIf_setString:
  assumes "printable env v"
  obtains obj' where "onlyIf c (setString env k v) obj = Inr obj'"
    and "\<And>k'. k' \<noteq> k \<Longrightarrow> getProp (JObj obj') k' = getProp (JObj obj) k'"
proof -
  obtain s where "jsString env v = Inr s"
    using assms by (rule printable_obtain)
  then have "onlyIf c (setString env k v) obj = Inr (if c then setProp k (JStr s) obj else obj)"
    by (simp add: onlyIf_def setString_def)
  moreover have "getProp (JObj (if c then setProp k (JStr s) obj else obj)) k'
      = getProp (JObj obj) k'" if "k' \<noteq> k" for k'
    using that by (simp add: map_of_setProp)
  ultimately show ?thesis using that by blast
qed

lemma onlyIf_setString_other:
  assumes "onlyIf c (setString env k v) obj = Inr obj'" and "k' \<noteq> k"
  shows "getProp (JObj obj') k' = getProp (JObj obj) k'"
  using assms
  by (cases "jsString env v") (auto simp: onlyIf_def setString_def map_of_setProp split: if_splits)




text \<open>
  Claim C9. The required-field check of the two parsers tests falsiness, not presence: for
  every body object in which statusCode, status or message is falsy, present (statusCode 0,
  message the empty string) or not, both parsers throw the ValidationError for missing
  required fields.
\<close>

theorem falsy_required_field_rejected:
  assumes "data r = JObj ps"
    and "\<not> truthy (getProp (JObj ps) ''statusCode'') \<or> \<not> truthy (getProp (JObj ps) ''status'')
         \<or> \<not> truthy (getProp (JObj ps) ''message'')"
  shows "parseInitiatePaymentResponse env (Some r) = Inl (ValidationError
           ''Invalid response format: missing required fields (statusCode, status, message)'')
       \<and> parseTransactionStatusResponse env (Some r) = Inl (ValidationError
           ''Invalid response format: missing required fields (statusCode, status, message)'')"
  using assms
  by (auto simp: parseInitiatePaymentResponse_def parseTransactionStatusResponse_def
        validateResponseStructure_object missingFieldsMessage_def)

theorem falsy_required_field_rejected_witness:
  "map_of [(''statusCode'', JNum (Fin 0)), (''status'', JStr ''success''),
           (''message'', JStr [])] ''statusCode'' = Some (JNum (Fin 0))
   \<and> map_of [(''statusCode'', JNum (Fin 0)), (''status'', JStr ''success''),
           (''message'', JStr [])] ''message'' = Some (JStr [])
   \<and> parseInitiatePaymentResponse sample_builtins
      (Some \<lparr>status = Fin 200, statusText = ''OK'',
             data = JObj [(''statusCode'', JNum (Fin 0)), (''status'', JStr ''success''),
                          (''message'', JStr [])]\<rparr>)
     = Inl (ValidationError
           ''Invalid response format: missing required fields (statusCode, status, message)'')
   \<and> parseTransactionStatusResponse sample_builtins
      (Some \<lparr>status = Fin 200, statusText = ''OK'',
             data = JObj [(''statusCode'', JNum (Fin 0)), (''status'', JStr ''success''),
                          (''message'', JStr [])]\<rparr>)
     = Inl (ValidationError
           ''Invalid response format: missing required fields (statusCode, status, message)'')"
  using falsy_required_field_rejected
    [of "\<lparr>status = Fin 200, statusText = ''OK'',
             data = JObj [(''statusCode'', JNum (Fin 0)), (''status'', JStr ''success''),
                          (''message'', JStr [])]\<rparr>"
        "[(''statusCode'', JNum (Fin 0)), (''status'', JStr ''success''),
                          (''message'', JStr [])]" sample_builtins]
  by simp

text \<open>
  Claim C5, as stated: a valid, non-failed transaction-status body whose nested transaction
  object is missing makes parseTransactionStatusResponse throw a ValidationError. It does
  not: the nested object is parsed only \<^verbatim>\<open>if (data.data)\<close>, and a body without it parses to a
  result without \<^verbatim>\<open>data\<close>.
\<close>

theorem missing_transaction_data_accepted:
  "getProp (JObj [(''statusCode'', JStr ''200''), (''status'', JStr ''success''),
                  (''message'', JStr ''ok'')]) ''data'' = JUndefined
   \<and> parseTransactionStatusResponse sample_builtins
      (Some \<lparr>status = Fin 200, statusText = ''OK'',
             data = JObj [(''statusCode'', JStr ''200''), (''status'', JStr ''success''),
                          (''message'', JStr ''ok'')]\<rparr>)
     = Inr (JObj [(''statusCode'', JStr ''200''), (''status'', JStr ''success''),
                  (''message'', JStr ''ok'')])"
  by (simp add: parseTransactionStatusResponse_def validateResponseStructure_def)

text \<open>
  Claim C5, amended. For every transaction-status response whose top-level body is valid and
  not failed, and whose statusCode and message can be printed (the parser prints them before
  it looks at the nested \<^verbatim>\<open>data\<close>): when the nested \<^verbatim>\<open>data\<close> is truthy and not an object, the
  parser throws the ValidationError "Invalid transaction data format"; when it is an object
  in which invoiceNumber, transactionStatus or transactionId is absent (or falsy), the parser
  throws the ValidationError "Invalid transaction data: missing required fields", also when
  only transactionId is missing; when the nested \<^verbatim>\<open>data\<close> is missing (or otherwise falsy),
  parsing succeeds and the result has no \<^verbatim>\<open>data\<close>.
\<close>

theorem transaction_data_validation:
  assumes "data r = JObj ps"
    and "truthy (getProp (JObj ps) ''statusCode'')"
    and "truthy (getProp (JObj ps) ''status'')"
    and "truthy (getProp (JObj ps) ''message'')"
    and "getProp (JObj ps) ''status'' \<noteq> JStr ''failed''"
    and "jsString env (getProp (JObj ps) ''statusCode'') = Inr statusCode"
    and "jsString env (getProp (JObj ps) ''message'') = Inr message"
  shows "(truthy (getProp (JObj ps) ''data'') \<and> typeof (getProp (JObj ps) ''data'') \<noteq> ''object''
           \<longrightarrow> parseTransactionStatusResponse env (Some r)
                 = Inl (ValidationError ''Invalid transaction data format''))
       \<and> (truthy (getProp (JObj ps) ''data'') \<and> typeof (getProp (JObj ps) ''data'') = ''object''
            \<and> (\<not> truthy (getProp (getProp (JObj ps) ''data'') ''invoiceNumber'')
               \<or> \<not> truthy (getProp (getProp (JObj ps) ''data'') ''transactionStatus'')
               \<or> \<not> truthy (getProp (getProp (JObj ps) ''data'') ''transactionId''))
           \<longrightarrow> parseTransactionStatusResponse env (Some r)
                 = Inl (ValidationError ''Invalid transaction data: missing required fields''))
       \<and> (\<not> truthy (getProp (JObj ps) ''data'')
           \<longrightarrow> parseTransactionStatusResponse env (Some r)
                 = Inr (JObj [(''statusCode'', JStr statusCode),
                              (''status'', getProp (JObj ps) ''status''),
                              (''message'', JStr message)]))"
  using assms
  by (auto simp: parseTransactionStatusResponse_def validateResponseStructure_object
        parseTransactionData_def)

theorem transaction_data_validation_witness:
  "parseTransactionStatusResponse sample_builtins
      (Some \<lparr>status = Fin 200, statusText = ''OK'',
             data = JObj [(''statusCode'', JStr ''200''), (''status'', JStr ''success''),
                          (''message'', JStr ''ok''),
                          (''data'', JObj [(''invoiceNumber'', JStr ''INV-1''),
                                           (''transactionStatus'', JStr ''success'')])]\<rparr>)
     = Inl (ValidationError ''Invalid transaction data: missing required fields'')
   \<and> parseTransactionStatusResponse sample_builtins
      (Some \<lparr>status = Fin 200, statusText = ''OK'',
             data = JObj [(''statusCode'', JStr ''200''), (''status'', JStr ''success''),
                          (''message'', JStr ''ok''), (''data'', JStr ''none'')]\<rparr>)
     = Inl (ValidationError ''Invalid transaction data format'')
   \<and> parseTransactionStatusResponse sample_builtins
      (Some \<lparr>status = Fin 200, statusText = ''OK'',
             data = JObj [(''statusCode'', JStr ''200''), (''status'', JStr ''success''),
                          (''message'', JStr ''ok''), (''data'', JNull)]\<rparr>)
     = Inr (JObj [(''statusCode'', JStr ''200''), (''status'', JStr ''success''),
                  (''message'', JStr ''ok'')])"
  using transaction_data_validation
    [of "\<lparr>status = Fin 200, statusText = ''OK'',
             data = JObj [(''statusCode'', JStr ''200''), (''status'', JStr ''success''),
                          (''message'', JStr ''ok''),
                          (''data'', JObj [(''invoiceNumber'', JStr ''INV-1''),
                                           (''transactionStatus'', JStr ''success'')])]\<rparr>"
        "[(''statusCode'', JStr ''200''), (''status'', JStr ''success''),
                          (''message'', JStr ''ok''),
                          (''data'', JObj [(''invoiceNumber'', JStr ''INV-1''),
                                           (''transactionStatus'', JStr ''success'')])]"
        sample_builtins "''200''" "''ok''"]
    transaction_data_validation
    [of "\<lparr>status = Fin 200, statusText = ''OK'',
             data = JObj [(''statusCode'', JStr ''200''), (''status'', JStr ''success''),
                          (''message'', JStr ''ok''), (''data'', JStr ''none'')]\<rparr>"
        "[(''statusCode'', JStr ''200''), (''status'', JStr ''success''),
                          (''message'', JStr ''ok''), (''data'', JStr ''none'')]"
        sample_builtins "''200''" "''ok''"]
    transaction_data_validation
    [of "\<lparr>status = Fin 200, statusText = ''OK'',
             data = JObj [(''statusCode'', JStr ''200''), (''status'', JStr ''success''),
                          (''message'', JStr ''ok''), (''data'', JNull)]\<rparr>"
        "[(''statusCode'', JStr ''200''), (''status'', JStr ''success''),
                          (''message'', JStr ''ok''), (''data'', JNull)]"
        sample_builtins "''200''" "''ok''"]
  by simp

text \<open>
  Claim C10, as stated: every body with truthy statusCode, status and message whose status is
  not "failed" parses successfully. For parseTransactionStatusResponse it does not when the
  body carries a nested \<^verbatim>\<open>data\<close> that fails its own validation.
\<close>

theorem pending_status_nested_data_rejected:
  "truthy (JStr ''200'') \<and> truthy (JStr ''pending'') \<and> truthy (JStr ''ok'')
   \<and> JStr ''pending'' \<noteq> JStr ''failed''
   \<and> parseTransactionStatusResponse sample_builtins
      (Some \<lparr>status = Fin 200, statusText = ''OK'',
             data = JObj [(''statusCode'', JStr ''200''), (''status'', JStr ''pending''),
                          (''message'', JStr ''ok''),
                          (''data'', JObj [(''invoiceNumber'', JStr ''INV-1'')])]\<rparr>)
     = Inl (ValidationError ''Invalid transaction data: missing required fields'')"
  by (simp add: parseTransactionStatusResponse_def validateResponseStructure_def
        parseTransactionData_def)

text \<open>
  Claim C10, amended. The parsers never check that status equals "success". For every body
  with truthy statusCode, status and message whose status is not "failed":
  parseInitiatePaymentResponse succeeds when statusCode, message and the optional
  paymentAmount, invoiceNumber and paymentUrl can be printed (strings, numbers, booleans and
  \<^verbatim>\<open>null\<close> can); parseTransactionStatusResponse succeeds when statusCode and message can be
  printed and the nested \<^verbatim>\<open>data\<close> is falsy or parses, and throws the error of the nested
  \<^verbatim>\<open>data\<close> when that does not parse; and whenever either parser returns, its result has the
  status of the body, copied as it is.
\<close>

theorem nonfailed_status_copied:
  assumes "data r = JObj ps"
    and "truthy (getProp (JObj ps) ''statusCode'')"
    and "truthy (getProp (JObj ps) ''status'')"
    and "truthy (getProp (JObj ps) ''message'')"
    and "getProp (JObj ps) ''status'' \<noteq> JStr ''failed''"
  shows "(printable env (getProp (JObj ps) ''statusCode'')
          \<and> printable env (getProp (JObj ps) ''message'')
          \<and> printable env (getProp (JObj ps) ''paymentAmount'')
          \<and> printable env (getProp (JObj ps) ''invoiceNumber'')
          \<and> printable env (getProp (JObj ps) ''paymentUrl'')
          \<longrightarrow> (\<exists>res. parseInitiatePaymentResponse env (Some r) = Inr res))
       \<and> (printable env (getProp (JObj ps) ''statusCode'')
          \<and> printable env (getProp (JObj ps) ''message'')
          \<and> (\<not> truthy (getProp (JObj ps) ''data'')
              \<or> (\<exists>t. parseTransactionData env (getProp (JObj ps) ''data'') = Inr t))
          \<longrightarrow> (\<exists>res. parseTransactionStatusResponse env (Some r) = Inr res))
       \<and> (\<forall>e. printable env (getProp (JObj ps) ''statusCode'')
          \<and> printable env (getProp (JObj ps) ''message'')
          \<and> truthy (getProp (JObj ps) ''data'')
          \<and> parseTransactionData env (getProp (JObj ps) ''data'') = Inl e
          \<longrightarrow> parseTransactionStatusResponse env (Some r) = Inl e)
       \<and> (\<forall>res. parseInitiatePaymentResponse env (Some r) = Inr res
          \<longrightarrow> getProp res ''status'' = getProp (JObj ps) ''status'')
       \<and> (\<forall>res. parseTransactionStatusResponse env (Some r) = Inr res
          \<longrightarrow> getProp res ''status'' = getProp (JObj ps) ''status'')"
proof -
  have i: "parseInitiatePaymentResponse env (Some r) =
      bindE (jsString env (getProp (JObj ps) ''statusCode'')) (\<lambda>statusCode.
      bindE (jsString env (getProp (JObj ps) ''message'')) (\<lambda>message.
      bindE (onlyIf (getProp (JObj ps) ''paymentAmount'' \<noteq> JUndefined)
               (setString env ''paymentAmount'' (getProp (JObj ps) ''paymentAmount''))
               [(''statusCode'', JStr statusCode),
                (''status'', getProp (JObj ps) ''status''),
                (''message'', JStr message)]) (\<lambda>parsedResponse.
      bindE (onlyIf (getProp (JObj ps) ''invoiceNumber'' \<noteq> JUndefined)
               (setString env ''invoiceNumber'' (getProp (JObj ps) ''invoiceNumber''))
               parsedResponse) (\<lambda>parsedResponse.
      bindE (onlyIf (getProp (JObj ps) ''paymentUrl'' \<noteq> JUndefined)
               (setString env ''paymentUrl'' (getProp (JObj ps) ''paymentUrl''))
               parsedResponse) (\<lambda>parsedResponse.
      Inr (JObj parsedResponse))))))"
    using assms
    by (simp add: parseInitiatePaymentResponse_def validateResponseStructure_object
          del: getProp.simps)
  have t: "parseTransactionStatusResponse env (Some r) =
      bindE (jsString env (getProp (JObj ps) ''statusCode'')) (\<lambda>statusCode.
      bindE (jsString env (getProp (JObj ps) ''message'')) (\<lambda>message.
      if truthy (getProp (JObj ps) ''data'')
      then bindE (parseTransactionData env (getProp (JObj ps) ''data'')) (\<lambda>t.
             Inr (JObj (setProp ''data'' t
               [(''statusCode'', JStr statusCode),
                (''status'', getProp (JObj ps) ''status''),
                (''message'', JStr message)])))
      else Inr (JObj [(''statusCode'', JStr statusCode),
                      (''status'', getProp (JObj ps) ''status''),
                      (''message'', JStr message)])))"
    using assms
    by (simp add: parseTransactionStatusResponse_def validateResponseStructure_object
          del: getProp.simps)
  have a: "\<exists>res. parseInitiatePaymentResponse env (Some r) = Inr res"
    if p: "printable env (getProp (JObj ps) ''statusCode'')"
      "printable env (getProp (JObj ps) ''message'')"
      "printable env (getProp (JObj ps) ''paymentAmount'')"
      "printable env (getProp (JObj ps) ''invoiceNumber'')"
      "printable env (getProp (JObj ps) ''paymentUrl'')"
  proof -
    obtain sc where sc: "jsString env (getProp (JObj ps) ''statusCode'') = Inr sc"
      using p(1) by (rule printable_obtain)
    obtain msg where msg: "jsString env (getProp (JObj ps) ''message'') = Inr msg"
      using p(2) by (rule printable_obtain)
    obtain o1 where o1: "onlyIf (getProp (JObj ps) ''paymentAmount'' \<noteq> JUndefined)
               (setString env ''paymentAmount'' (getProp (JObj ps) ''paymentAmount''))
               [(''statusCode'', JStr sc), (''status'', getProp (JObj ps) ''status''),
                (''message'', JStr msg)] = Inr o1"
      using p(3) by (rule onlyIf_setString)
    obtain o2 where o2: "onlyIf (getProp (JObj ps) ''invoiceNumber'' \<noteq> JUndefined)
               (setString env ''invoiceNumber'' (getProp (JObj ps) ''invoiceNumber''))
               o1 = Inr o2"
      using p(4) by (rule onlyIf_setString)
    obtain o3 where o3: "onlyIf (getProp (JObj ps) ''paymentUrl'' \<noteq> JUndefined)
               (setString env ''paymentUrl'' (getProp (JObj ps) ''paymentUrl''))
               o2 = Inr o3"
      using p(5) by (rule onlyIf_setString)
    show ?thesis unfolding i sc msg bindE_Inr o1 o2 o3 by blast
  qed
  have b: "\<exists>res. parseTransactionStatusResponse env (Some r) = Inr res"
    if p: "printable env (getProp (JObj ps) ''statusCode'')"
      "printable env (getProp (JObj ps) ''message'')"
      and d: "\<not> truthy (getProp (JObj ps) ''data'')
              \<or> (\<exists>t. parseTransactionData env (getProp (JObj ps) ''data'') = Inr t)"
  proof -
    obtain sc where sc: "jsString env (getProp (JObj ps) ''statusCode'') = Inr sc"
      using p(1) by (rule printable_obtain)
    obtain msg where msg: "jsString env (getProp (JObj ps) ''message'') = Inr msg"
      using p(2) by (rule printable_obtain)
    show ?thesis using d by (auto simp: t sc msg simp del: getProp.simps)
  qed
  have c: "parseTransactionStatusResponse env (Some r) = Inl e"
    if p: "printable env (getProp (JObj ps) ''statusCode'')"
      "printable env (getProp (JObj ps) ''message'')"
      and d: "truthy (getProp (JObj ps) ''data'')"
        "parseTransactionData env (getProp (JObj ps) ''data'') = Inl e" for e
  proof -
    obtain sc where sc: "jsString env (getProp (JObj ps) ''statusCode'') = Inr sc"
      using p(1) by (rule printable_obtain)
    obtain msg where msg: "jsString env (getProp (JObj ps) ''message'') = Inr msg"
      using p(2) by (rule printable_obtain)
    show ?thesis using d by (simp add: t sc msg del: getProp.simps)
  qed
  have d: "getProp res ''status'' = getProp (JObj ps) ''status''"
    if h: "parseInitiatePaymentResponse env (Some r) = Inr res" for res
  proof -
    from h [unfolded i] obtain sc where
      h1: "bindE (jsString env (getProp (JObj ps) ''message'')) (\<lambda>message.
      bindE (onlyIf (getProp (JObj ps) ''paymentAmount'' \<noteq> JUndefined)
               (setString env ''paymentAmount'' (getProp (JObj ps) ''paymentAmount''))
               [(''statusCode'', JStr sc),
                (''status'', getProp (JObj ps) ''status''),
                (''message'', JStr message)]) (\<lambda>parsedResponse.
      bindE (onlyIf (getProp (JObj ps) ''invoiceNumber'' \<noteq> JUndefined)
               (setString env ''invoiceNumber'' (getProp (JObj ps) ''invoiceNumber''))
               parsedResponse) (\<lambda>parsedResponse.
      bindE (onlyIf (getProp (JObj ps) ''paymentUrl'' \<noteq> JUndefined)
               (setString env ''paymentUrl'' (getProp (JObj ps) ''paymentUrl''))
               parsedResponse) (\<lambda>parsedResponse.
      Inr (JObj parsedResponse))))) = Inr res"
      by (rule bindE_InrE)
    from h1 obtain msg where
      h2: "bindE (onlyIf (getProp (JObj ps) ''paymentAmount'' \<noteq> JUndefined)
               (setString env ''paymentAmount'' (getProp (JObj ps) ''paymentAmount''))
               [(''statusCode'', JStr sc),
                (''status'', getProp (JObj ps) ''status''),
                (''message'', JStr msg)]) (\<lambda>parsedResponse.
      bindE (onlyIf (getProp (JObj ps) ''invoiceNumber'' \<noteq> JUndefined)
               (setString env ''invoiceNumber'' (getProp (JObj ps) ''invoiceNumber''))
               parsedResponse) (\<lambda>parsedResponse.
      bindE (onlyIf (getProp (JObj ps) ''paymentUrl'' \<noteq> JUndefined)
               (setString env ''paymentUrl'' (getProp (JObj ps) ''paymentUrl''))
               parsedResponse) (\<lambda>parsedResponse.
      Inr (JObj parsedResponse)))) = Inr res"
      by (rule bindE_InrE)
    from h2 obtain o1 where
      o1: "onlyIf (getProp (JObj ps) ''paymentAmount'' \<noteq> JUndefined)
               (setString env ''paymentAmount'' (getProp (JObj ps) ''paymentAmount''))
               [(''statusCode'', JStr sc),
                (''status'', getProp (JObj ps) ''status''),
                (''message'', JStr msg)] = Inr o1"
      and h3: "bindE (onlyIf (getProp (JObj ps) ''invoiceNumber'' \<noteq> JUndefined)
               (setString env ''invoiceNumber'' (getProp (JObj ps) ''invoiceNumber''))
               o1) (\<lambda>parsedResponse.
      bindE (onlyIf (getProp (JObj ps) ''paymentUrl'' \<noteq> JUndefined)
               (setString env ''paymentUrl'' (getProp (JObj ps) ''paymentUrl''))
               parsedResponse) (\<lambda>parsedResponse.
      Inr (JObj parsedResponse))) = Inr res"
      by (rule bindE_InrE)
    from h3 obtain o2 where
      o2: "onlyIf (getProp (JObj ps) ''invoiceNumber'' \<noteq> JUndefined)
               (setString env ''invoiceNumber'' (getProp (JObj ps) ''invoiceNumber''))
               o1 = Inr o2"
      and h4: "bindE (onlyIf (getProp (JObj ps) ''paymentUrl'' \<noteq> JUndefined)
               (setString env ''paymentUrl'' (getProp (JObj ps) ''paymentUrl''))
               o2) (\<lambda>parsedResponse. Inr (JObj parsedResponse)) = Inr res"
      by (rule bindE_InrE)
    from h4 obtain o3 where
      o3: "onlyIf (getProp (JObj ps) ''paymentUrl'' \<noteq> JUndefined)
               (setString env ''paymentUrl'' (getProp (JObj ps) ''paymentUrl''))
               o2 = Inr o3"
      and res: "Inr (JObj o3) = (Inr res :: error + jsval)"
      by (rule bindE_InrE)
    have "getProp (JObj o3) ''status'' = getProp (JObj o2) ''status''"
      using o3 by (rule onlyIf_setString_other) simp
    also have "\<dots> = getProp (JObj o1) ''status''"
      using o2 by (rule onlyIf_setString_other) simp
    also have "\<dots> = getProp (JObj [(''statusCode'', JStr sc),
                (''status'', getProp (JObj ps) ''status''),
                (''message'', JStr msg)]) ''status''"
      using o1 by (rule onlyIf_setString_other) simp
    also have "\<dots> = getProp (JObj ps) ''status''"
      by simp
    finally show ?thesis using res by auto
  qed
  have e: "getProp res ''status'' = getProp (JObj ps) ''status''"
    if h: "parseTransactionStatusResponse env (Some r) = Inr res" for res
  proof -
    from h [unfolded t] obtain sc where
      h1: "bindE (jsString env (getProp (JObj ps) ''message'')) (\<lambda>message.
      if truthy (getProp (JObj ps) ''data'')
      then bindE (parseTransactionData env (getProp (JObj ps) ''data'')) (\<lambda>t.
             Inr (JObj (setProp ''data'' t
               [(''statusCode'', JStr sc),
                (''status'', getProp (JObj ps) ''status''),
                (''message'', JStr message)])))
      else Inr (JObj [(''statusCode'', JStr sc),
                      (''status'', getProp (JObj ps) ''status''),
                      (''message'', JStr message)])) = Inr res"
      by (rule bindE_InrE)
    from h1 obtain msg where
      h2: "(if truthy (getProp (JObj ps) ''data'')
      then bindE (parseTransactionData env (getProp (JObj ps) ''data'')) (\<lambda>t.
             Inr (JObj (setProp ''data'' t
               [(''statusCode'', JStr sc),
                (''status'', getProp (JObj ps) ''status''),
                (''message'', JStr msg)])))
      else Inr (JObj [(''statusCode'', JStr sc),
                      (''status'', getProp (JObj ps) ''status''),
                      (''message'', JStr msg)])) = Inr res"
      by (rule bindE_InrE)
    show ?thesis
    proof (cases "truthy (getProp (JObj ps) ''data'')")
      case True
      with h2 obtain t where "Inr (JObj (setProp ''data'' t
               [(''statusCode'', JStr sc),
                (''status'', getProp (JObj ps) ''status''),
                (''message'', JStr msg)])) = (Inr res :: error + jsval)"
        by (auto elim: bindE_InrE)
      then show ?thesis by auto
    next
      case False
      with h2 show ?thesis by auto
    qed
  qed
  show ?thesis using a b c d e by blast
qed

theorem nonfailed_status_copied_witness:
  "(\<exists>res. parseInitiatePaymentResponse sample_builtins
      (Some \<lparr>status = Fin 200, statusText = ''OK'',
             data = JObj [(''statusCode'', JStr ''200''), (''status'', JStr ''pending''),
                          (''message'', JStr ''ok'')]\<rparr>) = Inr res
      \<and> getProp res ''status'' = JStr ''pending'')
   \<and> (\<exists>res. parseTransactionStatusResponse sample_builtins
      (Some \<lparr>status = Fin 200, statusText = ''OK'',
             data = JObj [(''statusCode'', JStr ''200''), (''status'', JStr ''pending''),
                          (''message'', JStr ''ok'')]\<rparr>) = Inr res
      \<and> getProp res ''status'' = JStr ''pending'')
   \<and> (\<exists>res. parseTransactionStatusResponse sample_builtins
      (Some \<lparr>status = Fin 200, statusText = ''OK'',
             data = JObj [(''statusCode'', JStr ''200''), (''status'', JStr ''pending''),
                          (''message'', JStr ''ok''),
                          (''data'', JObj [(''invoiceNumber'', JStr ''INV-1''),
                                           (''transactionStatus'', JStr ''processing''),
                                           (''transactionId'', JStr ''TRX-9'')])]\<rparr>) = Inr res
      \<and> getProp res ''status'' = JStr ''pending'')"
proof -
  have t: "\<exists>t. parseTransactionData sample_builtins
      (JObj [(''invoiceNumber'', JStr ''INV-1''), (''transactionStatus'', JStr ''processing''),
             (''transactionId'', JStr ''TRX-9'')]) = Inr t"
    by (simp add: parseTransactionData_def onlyIf_def jsOr_def)
  have a: "\<exists>res. parseInitiatePaymentResponse sample_builtins
      (Some \<lparr>status = Fin 200, statusText = ''OK'',
             data = JObj [(''statusCode'', JStr ''200''), (''status'', JStr ''pending''),
                          (''message'', JStr ''ok'')]\<rparr>) = Inr res
      \<and> getProp res ''status'' = JStr ''pending''"
    and b: "\<exists>res. parseTransactionStatusResponse sample_builtins
      (Some \<lparr>status = Fin 200, statusText = ''OK'',
             data = JObj [(''statusCode'', JStr ''200''), (''status'', JStr ''pending''),
                          (''message'', JStr ''ok'')]\<rparr>) = Inr res
      \<and> getProp res ''status'' = JStr ''pending''"
    using nonfailed_status_copied
      [of "\<lparr>status = Fin 200, statusText = ''OK'',
             data = JObj [(''statusCode'', JStr ''200''), (''status'', JStr ''pending''),
                          (''message'', JStr ''ok'')]\<rparr>"
        "[(''statusCode'', JStr ''200''), (''status'', JStr ''pending''),
                          (''message'', JStr ''ok'')]" sample_builtins]
    by auto
  have c: "\<exists>res. parseTransactionStatusResponse sample_builtins
      (Some \<lparr>status = Fin 200, statusText = ''OK'',
             data = JObj [(''statusCode'', JStr ''200''), (''status'', JStr ''pending''),
                          (''message'', JStr ''ok''),
                          (''data'', JObj [(''invoiceNumber'', JStr ''INV-1''),
                                           (''transactionStatus'', JStr ''processing''),
                                           (''transactionId'', JStr ''TRX-9'')])]\<rparr>) = Inr res
      \<and> getProp res ''status'' = JStr ''pending''"
    using t nonfailed_status_copied
      [of "\<lparr>status = Fin 200, statusText = ''OK'',
             data = JObj [(''statusCode'', JStr ''200''), (''status'', JStr ''pending''),
                          (''message'', JStr ''ok''),
                          (''data'', JObj [(''invoiceNumber'', JStr ''INV-1''),
                                           (''transactionStatus'', JStr ''processing''),
                                           (''transactionId'', JStr ''TRX-9'')])]\<rparr>"
        "[(''statusCode'', JStr ''200''), (''status'', JStr ''pending''),
                          (''message'', JStr ''ok''),
                          (''data'', JObj [(''invoiceNumber'', JStr ''INV-1''),
                                           (''transactionStatus'', JStr ''processing''),
                                           (''transactionId'', JStr ''TRX-9'')])]"
        sample_builtins]
    by auto
  show ?thesis using a b c by blast
qed

section \<open>Error responses\<close>

lemma orDefault_extract:
  "orDefault (extractErrorMessage env r) dflt = message_or env r dflt"
  by (cases "data r"; cases "jsString env (getProp (data r) ''message'')")
     (auto simp: orDefault_def extractErrorMessage_def message_or_def usable_message_def Let_def)

text \<open>
  Claim C3, as stated: with status 401 the message of the AuthenticationError is taken from
  the body's message field whenever the body is an object that has one. A body
  \<^verbatim>\<open>{message: ""}\<close> has one, and the error carries the default message instead.
\<close>

theorem empty_body_message_defaulted:
  "getProp (JObj [(''message'', JStr [])]) ''message'' = JStr []
   \<and> parseErrorResponse sample_builtins
      \<lparr>status = Fin 401, statusText = ''Unauthorized'',
       data = JObj [(''message'', JStr [])]\<rparr>
     = AuthenticationError ''Authentication failed'' (JStr ''401'')
   \<and> parseErrorResponse sample_builtins
      \<lparr>status = Fin 401, statusText = ''Unauthorized'',
       data = JObj [(''message'', JStr [])]\<rparr>
     \<noteq> AuthenticationError [] (JStr ''401'')"
  by (simp add: parseErrorResponse_def orDefault_def extractErrorMessage_def sample_builtins_def)

text \<open>
  Claim C3, amended. parseErrorResponse throws an AuthenticationError when the status is 401
  or 403 (default message "Authentication failed"), a ValidationError when it is 400 (default
  "Invalid request parameters"), and a PayStationError otherwise (default
  "HTTP {status}: {statusText}"); the AuthenticationError and the PayStationError carry the
  HTTP status, printed, as their code. The message is the body's message, printed, when the
  body is an object whose message field is truthy, can be printed and does not print as the
  empty string; it is the default in every other case: no object, no message, a falsy
  message such as the empty string, or a message that cannot be printed.
\<close>

theorem parseErrorResponse_mapping:
  "parseErrorResponse env r =
     (if status r = Fin 401 \<or> status r = Fin 403
      then AuthenticationError (message_or env r ''Authentication failed'')
             (JStr (numberToString env (status r)))
      else if status r = Fin 400
      then ValidationError (message_or env r ''Invalid request parameters'')
      else PayStationError
             (message_or env r
                (''HTTP '' @ numberToString env (status r) @ '': '' @ statusText r))
             (JStr (numberToString env (status r))))"
  by (simp add: parseErrorResponse_def orDefault_extract)

theorem parseErrorResponse_mapping_witness:
  "parseErrorResponse sample_builtins
      \<lparr>status = Fin 401, statusText = ''Unauthorized'',
       data = JObj [(''message'', JStr ''bad creds'')]\<rparr>
     = AuthenticationError ''bad creds'' (JStr ''401'')
   \<and> parseErrorResponse sample_builtins
      \<lparr>status = Fin 401, statusText = ''Unauthorized'', data = JStr ''<html>''\<rparr>
     = AuthenticationError ''Authentication failed'' (JStr ''401'')
   \<and> parseErrorResponse sample_builtins
      \<lparr>status = Fin 401, statusText = ''Unauthorized'',
       data = JObj [(''message'', unprintable)]\<rparr>
     = AuthenticationError ''Authentication failed'' (JStr ''401'')
   \<and> parseErrorResponse sample_builtins
      \<lparr>status = Fin 400, statusText = ''Bad Request'', data = JNull\<rparr>
     = ValidationError ''Invalid request parameters''
   \<and> parseErrorResponse sample_builtins
      \<lparr>status = Fin 500, statusText = ''Internal Server Error'', data = JObj []\<rparr>
     = PayStationError ''HTTP 500: Internal Server Error'' (JStr ''500'')"
  using parseErrorResponse_mapping [of sample_builtins
      "\<lparr>status = Fin 401, statusText = ''Unauthorized'',
       data = JObj [(''message'', JStr ''bad creds'')]\<rparr>"]
    parseErrorResponse_mapping [of sample_builtins
      "\<lparr>status = Fin 401, statusText = ''Unauthorized'', data = JStr ''<html>''\<rparr>"]
    parseErrorResponse_mapping [of sample_builtins
      "\<lparr>status = Fin 401, statusText = ''Unauthorized'',
       data = JObj [(''message'', unprintable)]\<rparr>"]
    parseErrorResponse_mapping [of sample_builtins
      "\<lparr>status = Fin 400, statusText = ''Bad Request'', data = JNull\<rparr>"]
    parseErrorResponse_mapping [of sample_builtins
      "\<lparr>status = Fin 500, statusText = ''Internal Server Error'', data = JObj []\<rparr>"]
  by (simp add: message_or_def usable_message_def sample_builtins_def)

section \<open>Request building\<close>

lemma num_ge0_not_lt0: "num_ge0 n \<Longrightarrow> \<not> num_lt0 n"
  by (cases n) auto

lemma num_gt0_not_le0: "num_gt0 n \<Longrightarrow> \<not> num_le0 n"
  by (cases n) auto

lemma required_string_ok_validate:
  "required_string_ok v \<Longrightarrow> validateRequiredString v f = Inr ()"
  by (cases v) (auto simp: required_string_ok_def validateRequiredString_def)

lemma required_string_ok_JStr: "required_string_ok v \<Longrightarrow> \<exists>s. v = JStr s"
  by (cases v) (auto simp: required_string_ok_def)

lemma required_string_ok_printable: "required_string_ok v \<Longrightarrow> printable env v"
  by (auto dest: required_string_ok_JStr)

lemma optional_amount_ok_cases:
  "optional_amount_ok v \<Longrightarrow> v = JUndefined \<or> (\<exists>n. v = JNum n \<and> \<not> num_lt0 n)"
  by (cases v) (auto simp: optional_amount_ok_def num_ge0_not_lt0)

lemma optional_amount_ok_printable: "optional_amount_ok v \<Longrightarrow> printable env v"
  by (auto dest: optional_amount_ok_cases)

lemma other_fields_valid_truthy: "other_fields_valid env p \<Longrightarrow> truthy p"
  by (cases p) (auto simp: other_fields_valid_def required_string_ok_def)

text \<open>When every other rule holds, the validator's verdict is its verdict on paymentAmount.\<close>

lemma validate_amount_only:
  assumes "other_fields_valid env p"
  shows "validateInitiatePaymentParams env p =
     (case getProp p ''paymentAmount'' of
        JNum n \<Rightarrow>
          (if num_le0 n then Inl (ValidationError ''paymentAmount must be greater than 0'')
           else Inr ())
      | _ \<Rightarrow> Inl (ValidationError ''paymentAmount must be a number''))"
proof -
  have t: "truthy p" using assms by (rule other_fields_valid_truthy)
  have s: "validateRequiredString (getProp p ''invoiceNumber'') ''invoiceNumber'' = Inr ()"
    "validateRequiredString (getProp p ''customerName'') ''customerName'' = Inr ()"
    "validateRequiredString (getProp p ''customerPhone'') ''customerPhone'' = Inr ()"
    "validateRequiredString (getProp p ''customerEmail'') ''customerEmail'' = Inr ()"
    "validateRequiredString (getProp p ''callbackUrl'') ''callbackUrl'' = Inr ()"
    using assms by (simp_all add: other_fields_valid_def required_string_ok_validate)
  have c: "getProp p ''payWithCharge'' = JUndefined
      \<or> (\<exists>n. getProp p ''payWithCharge'' = JNum n \<and> \<not> num_lt0 n)"
    using assms by (simp add: other_fields_valid_def optional_amount_ok_cases)
  have e: "getProp p ''emi'' = JUndefined
      \<or> (\<exists>n. getProp p ''emi'' = JNum n \<and> \<not> num_lt0 n)"
    using assms by (simp add: other_fields_valid_def optional_amount_ok_cases)
  have f: "isValidEmail env (getProp p ''customerEmail'') = Inr True"
    "isValidUrl env (getProp p ''callbackUrl'')"
    using assms by (simp_all add: other_fields_valid_def)
  show ?thesis
    using c e
    by (auto simp: validateInitiatePaymentParams_def t s f split: jsval.splits)
qed

lemma valid_params_accepted:
  "valid_params env p \<Longrightarrow> validateInitiatePaymentParams env p = Inr ()"
  by (auto simp: valid_params_def validate_amount_only num_gt0_not_le0 split: jsval.splits)

text \<open>Appending a value that can be printed returns, and adds its key.\<close>

lemma append_param_printable:
  "printable env v \<Longrightarrow>
     append_param env k v fd = Inr (fd @ [(k, projr (jsString env v))])"
  by (cases "jsString env v") (simp_all add: append_param_def printable_def)

lemma onlyIf_append_param_printable:
  "printable env v \<Longrightarrow>
     onlyIf c (append_param env k v) fd
       = Inr (fd @ (if c then [(k, projr (jsString env v))] else []))"
  by (simp add: onlyIf_def append_param_printable)

lemma keys_snoc: "fst ` set (fd @ [(k, s)]) = fst ` set fd \<union> {k}"
  by simp

lemma keys_snoc_if:
  "fst ` set (fd @ (if c then [(k, s)] else [])) = fst ` set fd \<union> (if c then {k} else {})"
  by simp

lemma keys_Nil: "fst ` set ([] :: (string \<times> string) list) = {}"
  by simp

lemma required_keys_unfold:
  "required_keys = {} \<union> {''merchant_id''} \<union> {''password''} \<union> {''invoice_number''}
     \<union> {''payment_amount''} \<union> {''customer_name''} \<union> {''customer_phone''}
     \<union> {''customer_email''} \<union> {''callback_url''}"
  unfolding required_keys_def
  by (simp only: Un_insert_right Un_empty_right Un_empty_left insert_commute)

text \<open>
  The request that \<open>buildInitiatePaymentRequest\<close> returns once validation has passed, when the
  base URL is a string and everything that is appended can be printed.
\<close>

lemma build_request_shape:
  assumes "validateInitiatePaymentParams env p = Inr ()"
    and "getBaseUrl env cm = Inr (JStr base)"
    and "printable env (getMerchantId cm)" "printable env (getPassword cm)"
    and "printable env (getProp p ''invoiceNumber'')"
      "printable env (getProp p ''paymentAmount'')"
      "printable env (getProp p ''customerName'')"
      "printable env (getProp p ''customerPhone'')"
      "printable env (getProp p ''customerEmail'')"
      "printable env (getProp p ''callbackUrl'')"
    and "printable env (getProp p ''currency'')"
      "printable env (getProp p ''payWithCharge'')"
      "printable env (getProp p ''reference'')"
      "printable env (getProp p ''customerAddress'')"
      "printable env (getProp p ''checkoutItems'')"
      "printable env (getProp p ''optA'')"
      "printable env (getProp p ''optB'')"
      "printable env (getProp p ''optC'')"
      "printable env (getProp p ''emi'')"
  shows "(case buildInitiatePaymentRequest env cm p of
            Inl e \<Rightarrow> False
          | Inr req \<Rightarrow>
              url req = base @ ''/initiate-payment''
              \<and> httpMethod req = ''POST''
              \<and> headers req = requestHeaders
              \<and> fst ` set (body req) = required_keys \<union> sent_optional_keys p)"
  unfolding required_keys_unfold sent_optional_keys_def
  by (simp only: buildInitiatePaymentRequest_def assms andThen_Inr bindE_Inr jsString.simps
        append_param_printable onlyIf_append_param_printable sum.case
        HttpRequest.select_convs keys_snoc keys_snoc_if keys_Nil Un_assoc simp_thms)

lemma status_request_shape:
  assumes "required_string_ok v"
    and "getBaseUrl env cm = Inr (JStr base)"
    and "printable env (getMerchantId cm)" "printable env (getPassword cm)"
  shows "\<exists>req. buildTransactionStatusRequest env cm v = Inr req
           \<and> url req = base @ ''/transaction-status''
           \<and> httpMethod req = ''POST'' \<and> headers req = requestHeaders"
    and "\<exists>req. buildTransactionStatusByIdRequest env cm v = Inr req
           \<and> url req = base @ ''/v2/transaction-status''
           \<and> httpMethod req = ''POST'' \<and> headers req = requestHeaders"
  using assms required_string_ok_printable [OF assms(1), of env]
  by (simp_all add: buildTransactionStatusRequest_def buildTransactionStatusByIdRequest_def
        validateInvoiceNumber_def validateTransactionId_def required_string_ok_validate
        append_param_printable)

lemma new_ConfigManager_Inr:
  assumes "new_ConfigManager env c = Inr cm"
  shows "\<not> config_rejected c \<and> cm = \<lparr>config = c\<rparr>"
proof -
  have r: "\<not> config_rejected c"
  proof
    assume "config_rejected c"
    then obtain e where "validateConfig env c = Inl e"
      using validateConfig_rejected(1) by blast
    with assms show False by (simp add: new_ConfigManager_def)
  qed
  then have "validateConfig env c = Inr ()"
    by (rule validateConfig_accepted)
  with assms have "cm = \<lparr>config = c\<rparr>" by (simp add: new_ConfigManager_def)
  with r show ?thesis by simp
qed

text \<open>A constructed configuration manager holds two strings and one of the two base URLs.\<close>

lemma constructed_manager:
  assumes "new_ConfigManager env c = Inr cm"
  shows "getBaseUrl env cm = Inr (JStr ''https://sandbox.paystation.com.bd/api'')
       \<or> getBaseUrl env cm = Inr (JStr ''https://api.paystation.com.bd'')"
    and "printable env (getMerchantId cm)" and "printable env (getPassword cm)"
proof -
  from assms have r: "\<not> config_rejected c" and cm: "cm = \<lparr>config = c\<rparr>"
    using new_ConfigManager_Inr by blast+
  from r have "getProp c ''environment'' = JStr ''sandbox''
      \<or> getProp c ''environment'' = JStr ''live''"
    by (simp add: config_rejected_def)
  then show "getBaseUrl env cm = Inr (JStr ''https://sandbox.paystation.com.bd/api'')
       \<or> getBaseUrl env cm = Inr (JStr ''https://api.paystation.com.bd'')"
    by (auto simp: cm getBaseUrl_def getEnvironment_def BASE_URLS_def)
  from r show "printable env (getMerchantId cm)"
    by (cases "getProp c ''merchantId''")
       (simp_all add: cm getMerchantId_def config_rejected_def credential_rejected_def)
  from r show "printable env (getPassword cm)"
    by (cases "getProp c ''password''")
       (simp_all add: cm getPassword_def config_rejected_def credential_rejected_def)
qed

text \<open>The request for parameters that the validator accepts and that can be printed.\<close>

lemma build_request_valid:
  assumes v: "other_fields_valid env p"
    and a: "getProp p ''paymentAmount'' = JNum n" "\<not> num_le0 n"
    and b: "getBaseUrl env cm = Inr (JStr base)"
    and c: "printable env (getMerchantId cm)" "printable env (getPassword cm)"
  shows "\<exists>req. buildInitiatePaymentRequest env cm p = Inr req
           \<and> url req = base @ ''/initiate-payment''
           \<and> httpMethod req = ''POST''
           \<and> headers req = requestHeaders
           \<and> fst ` set (body req) = required_keys \<union> sent_optional_keys p"
proof -
  have ok: "validateInitiatePaymentParams env p = Inr ()"
    using a by (simp add: validate_amount_only [OF v])
  have r: "printable env (getProp p ''invoiceNumber'')"
    "printable env (getProp p ''customerName'')"
    "printable env (getProp p ''customerPhone'')"
    "printable env (getProp p ''customerEmail'')"
    "printable env (getProp p ''callbackUrl'')"
    using v by (simp_all add: other_fields_valid_def required_string_ok_printable)
  have m: "printable env (getProp p ''paymentAmount'')"
    using a by simp
  have o: "printable env (getProp p ''payWithCharge'')" "printable env (getProp p ''emi'')"
    using v by (simp_all add: other_fields_valid_def optional_amount_ok_printable)
  have s: "printable env (getProp p ''currency'')"
    "printable env (getProp p ''reference'')"
    "printable env (getProp p ''customerAddress'')"
    "printable env (getProp p ''checkoutItems'')"
    "printable env (getProp p ''optA'')"
    "printable env (getProp p ''optB'')"
    "printable env (getProp p ''optC'')"
    using v by (simp_all add: other_fields_valid_def optional_strings_ok_def)
  from build_request_shape [OF ok b c r(1) m r(2-5) s(1) o(1) s(2-7) o(2)]
  show ?thesis
    by (cases "buildInitiatePaymentRequest env cm p") simp_all
qed

text \<open>The sample inputs are valid.\<close>

lemma sample_config_constructed:
  "new_ConfigManager sample_builtins sample_config = Inr \<lparr>config = sample_config\<rparr>"
  by (simp add: new_ConfigManager_def validateConfig_def sample_config_def trim_def
        isWhiteSpace_def Environment_values_def)

lemma sample_base_url:
  "getBaseUrl sample_builtins \<lparr>config = sample_config\<rparr>
     = Inr (JStr ''https://sandbox.paystation.com.bd/api'')"
  by (simp add: getBaseUrl_def getEnvironment_def BASE_URLS_def sample_config_def)

lemma sample_credentials:
  "getMerchantId \<lparr>config = sample_config\<rparr> = JStr ''m1''"
  "getPassword \<lparr>config = sample_config\<rparr> = JStr ''pw''"
  by (simp_all add: getMerchantId_def getPassword_def sample_config_def)

lemma sample_email: "isValidEmail env (JStr ''a@b.io'') = Inr True"
  by (simp add: isValidEmail_def emailRegex_def isWhiteSpace_def)

lemma sample_url: "isValidUrl sample_builtins (JStr ''https://x.com/cb'')"
  by (simp add: isValidUrl_def sample_builtins_def)

lemma sample_other_fields_valid:
  "other_fields_valid sample_builtins (JObj (sample_params_amount n))"
  by (simp add: other_fields_valid_def optional_strings_ok_def sample_params_amount_def
        required_string_ok_def optional_amount_ok_def trim_def isWhiteSpace_def
        sample_email sample_url)

lemma sample_params_valid: "valid_params sample_builtins (JObj sample_params)"
  using sample_other_fields_valid [of "Fin 100"]
  by (simp add: valid_params_def sample_params_def) (simp add: sample_params_amount_def)

text \<open>
  Claim C7. With a constructed configuration manager, every valid input makes the three
  builders return a request at a fixed endpoint: \<^verbatim>\<open>{baseUrl}/initiate-payment\<close> for a payment,
  \<^verbatim>\<open>{baseUrl}/transaction-status\<close> for a status by invoice number and
  \<^verbatim>\<open>{baseUrl}/v2/transaction-status\<close> for a status by transaction id, each with method POST
  and the headers Content-Type: application/x-www-form-urlencoded and Accept: application/json.
\<close>

theorem builders_fixed_endpoints:
  assumes "new_ConfigManager env c = Inr cm"
  shows "\<exists>baseUrl. getBaseUrl env cm = Inr (JStr baseUrl)
     \<and> (valid_params env p \<longrightarrow>
          (\<exists>req. buildInitiatePaymentRequest env cm p = Inr req
             \<and> url req = baseUrl @ ''/initiate-payment''
             \<and> httpMethod req = ''POST''
             \<and> headers req = [(''Content-Type'', ''application/x-www-form-urlencoded''),
                               (''Accept'', ''application/json'')]))
     \<and> (required_string_ok invoiceNumber \<longrightarrow>
          (\<exists>req. buildTransactionStatusRequest env cm invoiceNumber = Inr req
             \<and> url req = baseUrl @ ''/transaction-status''
             \<and> httpMethod req = ''POST''
             \<and> headers req = [(''Content-Type'', ''application/x-www-form-urlencoded''),
                               (''Accept'', ''application/json'')]))
     \<and> (required_string_ok transactionId \<longrightarrow>
          (\<exists>req. buildTransactionStatusByIdRequest env cm transactionId = Inr req
             \<and> url req = baseUrl @ ''/v2/transaction-status''
             \<and> httpMethod req = ''POST''
             \<and> headers req = [(''Content-Type'', ''application/x-www-form-urlencoded''),
                               (''Accept'', ''application/json'')]))"
proof -
  obtain baseUrl where b: "getBaseUrl env cm = Inr (JStr baseUrl)"
    using constructed_manager(1) [OF assms] by blast
  note c = constructed_manager(2,3) [OF assms]
  have i: "\<exists>req. buildInitiatePaymentRequest env cm p = Inr req
             \<and> url req = baseUrl @ ''/initiate-payment''
             \<and> httpMethod req = ''POST''
             \<and> headers req = requestHeaders" if v: "valid_params env p"
  proof -
    from v obtain n where n: "other_fields_valid env p"
      "getProp p ''paymentAmount'' = JNum n" "\<not> num_le0 n"
      by (auto simp: valid_params_def num_gt0_not_le0 split: jsval.splits)
    from build_request_valid [OF n b c] show ?thesis by blast
  qed
  show ?thesis
    using b i status_request_shape [OF _ b c, of invoiceNumber]
      status_request_shape [OF _ b c, of transactionId]
    by (simp add: requestHeaders_def)
qed

theorem builders_fixed_endpoints_witness:
  "new_ConfigManager sample_builtins sample_config = Inr \<lparr>config = sample_config\<rparr>
   \<and> valid_params sample_builtins (JObj sample_params)
   \<and> required_string_ok (JStr ''INV-1'') \<and> required_string_ok (JStr ''TRX-9'')
   \<and> (\<exists>req. buildInitiatePaymentRequest sample_builtins \<lparr>config = sample_config\<rparr>
               (JObj sample_params) = Inr req
          \<and> url req = ''https://sandbox.paystation.com.bd/api/initiate-payment''
          \<and> httpMethod req = ''POST'')
   \<and> (\<exists>req. buildTransactionStatusRequest sample_builtins \<lparr>config = sample_config\<rparr>
               (JStr ''INV-1'') = Inr req
          \<and> url req = ''https://sandbox.paystation.com.bd/api/transaction-status''
          \<and> httpMethod req = ''POST'')
   \<and> (\<exists>req. buildTransactionStatusByIdRequest sample_builtins \<lparr>config = sample_config\<rparr>
               (JStr ''TRX-9'') = Inr req
          \<and> url req = ''https://sandbox.paystation.com.bd/api/v2/transaction-status''
          \<and> httpMethod req = ''POST'')"
proof -
  have s: "required_string_ok (JStr ''INV-1'')" "required_string_ok (JStr ''TRX-9'')"
    by (simp_all add: required_string_ok_def trim_def isWhiteSpace_def)
  show ?thesis
    using builders_fixed_endpoints [OF sample_config_constructed,
        of "JObj sample_params" "JStr ''INV-1''" "JStr ''TRX-9''"]
      sample_config_constructed sample_params_valid s
    by (auto simp: sample_base_url)
qed

text \<open>
  Claim C6. For every payment input whose other fields are valid and whose paymentAmount is a
  number: when \<^verbatim>\<open>paymentAmount <= 0\<close>, zero included, buildInitiatePaymentRequest throws the
  ValidationError "paymentAmount must be greater than 0"; when \<^verbatim>\<open>paymentAmount > 0\<close> it
  returns a request, the builder holding a constructed configuration manager.
\<close>

theorem payment_amount_boundary:
  assumes "other_fields_valid env p"
    and "getProp p ''paymentAmount'' = JNum n"
  shows "(num_le0 n \<longrightarrow> buildInitiatePaymentRequest env cm p
            = Inl (ValidationError ''paymentAmount must be greater than 0''))
       \<and> (num_gt0 n \<longrightarrow> new_ConfigManager env c = Inr cm \<longrightarrow>
            (\<exists>req. buildInitiatePaymentRequest env cm p = Inr req))"
proof -
  have v: "validateInitiatePaymentParams env p =
      (if num_le0 n then Inl (ValidationError ''paymentAmount must be greater than 0'')
       else Inr ())"
    using validate_amount_only [OF assms(1)] assms(2) by simp
  have "\<exists>req. buildInitiatePaymentRequest env cm p = Inr req"
    if g: "num_gt0 n" and k: "new_ConfigManager env c = Inr cm"
  proof -
    obtain base where b: "getBaseUrl env cm = Inr (JStr base)"
      using constructed_manager(1) [OF k] by blast
    from g have "\<not> num_le0 n" by (rule num_gt0_not_le0)
    from build_request_valid [OF assms this b constructed_manager(2,3) [OF k]]
    show ?thesis by blast
  qed
  moreover have "buildInitiatePaymentRequest env cm p
      = Inl (ValidationError ''paymentAmount must be greater than 0'')" if "num_le0 n"
    using v that by (simp add: buildInitiatePaymentRequest_def)
  ultimately show ?thesis by blast
qed

theorem payment_amount_boundary_witness:
  "other_fields_valid sample_builtins (JObj (sample_params_amount (Fin 0)))
   \<and> num_le0 (Fin 0)
   \<and> buildInitiatePaymentRequest sample_builtins \<lparr>config = sample_config\<rparr>
        (JObj (sample_params_amount (Fin 0)))
      = Inl (ValidationError ''paymentAmount must be greater than 0'')
   \<and> other_fields_valid sample_builtins (JObj sample_params)
   \<and> num_gt0 (Fin 100)
   \<and> new_ConfigManager sample_builtins sample_config = Inr \<lparr>config = sample_config\<rparr>
   \<and> (\<exists>req. buildInitiatePaymentRequest sample_builtins \<lparr>config = sample_config\<rparr>
               (JObj sample_params) = Inr req)"
proof -
  have a: "other_fields_valid sample_builtins (JObj (sample_params_amount (Fin 0)))"
    by (rule sample_other_fields_valid)
  have b: "other_fields_valid sample_builtins (JObj sample_params)"
    using sample_params_valid by (simp add: valid_params_def)
  have c: "getProp (JObj (sample_params_amount (Fin 0)))
      ''paymentAmount'' = JNum (Fin 0)"
    by (simp add: sample_params_amount_def)
  have d: "getProp (JObj sample_params) ''paymentAmount'' = JNum (Fin 100)"
    by (simp add: sample_params_def sample_params_amount_def)
  show ?thesis
    using a b sample_config_constructed
      payment_amount_boundary [OF a c, of "\<lparr>config = sample_config\<rparr>" sample_config]
      payment_amount_boundary [OF b d, of "\<lparr>config = sample_config\<rparr>" sample_config]
    by simp
qed

text \<open>
  Claim C4, as stated: the keys of the body are the required keys and the keys of the
  optional fields present in the input. Valid parameters with \<^verbatim>\<open>currency: ""\<close> have the
  optional field, and the body has no \<^verbatim>\<open>currency\<close> key.
\<close>

theorem empty_currency_omitted:
  "valid_params sample_builtins (JObj ((''currency'', JStr []) # sample_params))
   \<and> present_optional_keys (JObj ((''currency'', JStr []) # sample_params)) = [''currency'']
   \<and> buildInitiatePaymentRequest sample_builtins \<lparr>config = sample_config\<rparr>
        (JObj ((''currency'', JStr []) # sample_params))
      = Inr \<lparr> url = ''https://sandbox.paystation.com.bd/api/initiate-payment'',
               httpMethod = ''POST'', headers = requestHeaders,
               body = [(''merchant_id'', ''m1''), (''password'', ''pw''),
                       (''invoice_number'', ''INV-1''), (''payment_amount'', ''100''),
                       (''customer_name'', ''John Doe''), (''customer_phone'', ''017''),
                       (''customer_email'', ''a@b.io''),
                       (''callback_url'', ''https://x.com/cb'')] \<rparr>
   \<and> ''currency'' \<notin> fst ` set
        [(''merchant_id'', ''m1''), (''password'', ''pw''),
         (''invoice_number'', ''INV-1''), (''payment_amount'', ''100''),
         (''customer_name'', ''John Doe''), (''customer_phone'', ''017''),
         (''customer_email'', ''a@b.io''), (''callback_url'', ''https://x.com/cb'')]"
proof -
  have v: "valid_params sample_builtins (JObj ((''currency'', JStr []) # sample_params))"
    by (simp add: valid_params_def other_fields_valid_def optional_strings_ok_def
        sample_params_def sample_params_amount_def
        required_string_ok_def optional_amount_ok_def trim_def isWhiteSpace_def
        sample_email sample_url)
  have k: "present_optional_keys (JObj ((''currency'', JStr []) # sample_params))
      = [''currency'']"
    by (simp add: present_optional_keys_def optional_fields_def sample_params_def sample_params_amount_def)
  have b: "buildInitiatePaymentRequest sample_builtins \<lparr>config = sample_config\<rparr>
        (JObj ((''currency'', JStr []) # sample_params))
      = Inr \<lparr> url = ''https://sandbox.paystation.com.bd/api/initiate-payment'',
               httpMethod = ''POST'', headers = requestHeaders,
               body = [(''merchant_id'', ''m1''), (''password'', ''pw''),
                       (''invoice_number'', ''INV-1''), (''payment_amount'', ''100''),
                       (''customer_name'', ''John Doe''), (''customer_phone'', ''017''),
                       (''customer_email'', ''a@b.io''),
                       (''callback_url'', ''https://x.com/cb'')] \<rparr>"
    by (simp add: buildInitiatePaymentRequest_def valid_params_accepted [OF v]
          sample_base_url sample_credentials append_param_def onlyIf_def)
       (simp add: sample_params_def sample_params_amount_def sample_builtins_def)
  show ?thesis using v k b by simp
qed

text \<open>
  Claim C4, amended. For all valid parameters, given to a builder that holds a constructed
  configuration manager, the keys of the body are the eight required keys, the keys of the
  optional string fields (currency, reference, customerAddress, checkoutItems, optA, optB,
  optC) whose value is truthy, that is present and not the empty string, and the keys of the
  optional numeric fields (payWithCharge, emi) that are present; no other key appears.
\<close>

theorem body_key_set:
  assumes "valid_params env p"
    and "new_ConfigManager env c = Inr cm"
  shows "\<exists>req. buildInitiatePaymentRequest env cm p = Inr req
           \<and> fst ` set (body req) = required_keys \<union> sent_optional_keys p"
proof -
  obtain base where b: "getBaseUrl env cm = Inr (JStr base)"
    using constructed_manager(1) [OF assms(2)] by blast
  from assms(1) obtain n where n: "other_fields_valid env p"
    "getProp p ''paymentAmount'' = JNum n" "\<not> num_le0 n"
    by (auto simp: valid_params_def num_gt0_not_le0 split: jsval.splits)
  from build_request_valid [OF n b constructed_manager(2,3) [OF assms(2)]]
  show ?thesis by blast
qed

theorem body_key_set_witness:
  "valid_params sample_builtins
      (JObj ((''currency'', JStr ''BDT'') # (''payWithCharge'', JNum (Fin 0))
             # (''reference'', JStr []) # sample_params))
   \<and> new_ConfigManager sample_builtins sample_config = Inr \<lparr>config = sample_config\<rparr>
   \<and> (\<exists>req. buildInitiatePaymentRequest sample_builtins \<lparr>config = sample_config\<rparr>
         (JObj ((''currency'', JStr ''BDT'') # (''payWithCharge'', JNum (Fin 0))
             # (''reference'', JStr []) # sample_params)) = Inr req
        \<and> fst ` set (body req) = required_keys \<union> {''currency'', ''pay_with_charge''})"
proof -
  have v: "valid_params sample_builtins
      (JObj ((''currency'', JStr ''BDT'') # (''payWithCharge'', JNum (Fin 0))
             # (''reference'', JStr []) # sample_params))"
    by (simp add: valid_params_def other_fields_valid_def optional_strings_ok_def
        sample_params_def sample_params_amount_def
        required_string_ok_def optional_amount_ok_def trim_def isWhiteSpace_def
        sample_email sample_url)
  have k: "sent_optional_keys
      (JObj ((''currency'', JStr ''BDT'') # (''payWithCharge'', JNum (Fin 0))
             # (''reference'', JStr []) # sample_params))
      = {''currency'', ''pay_with_charge''}"
    by (auto simp: sent_optional_keys_def sample_params_def sample_params_amount_def)
  show ?thesis
    using v sample_config_constructed
      body_key_set [OF v sample_config_constructed]
    by (simp only: k simp_thms)
qed

section \<open>The order of validation\<close>

lemma andThen_if:
  "andThen (if c then Inr () else Inl e) b = (if c then b else Inl e)"
  by (simp add: andThen_def)

lemma check_required_string:
  "\<exists>m \<in> set (rule_messages (RequiredString f)).
     validateRequiredString (getProp p f) f =
       (if rule_holds env p (RequiredString f) then Inr () else Inl (ValidationError m))"
  by (cases "getProp p f") (auto simp: validateRequiredString_def required_string_ok_def)

lemma check_email:
  assumes "rule_holds env p (RequiredString ''customerEmail'')"
  shows "bindE (isValidEmail env (getProp p ''customerEmail'')) (\<lambda>valid.
            if \<not> valid
            then Inl (ValidationError ''customerEmail must be a valid email address'')
            else Inr ())
         = (if rule_holds env p EmailPattern then Inr ()
            else Inl (ValidationError ''customerEmail must be a valid email address''))"
  using assms
  by (cases "getProp p ''customerEmail''") (auto simp: isValidEmail_def required_string_ok_def)

lemma num_le0_or_gt0: "n \<noteq> NaN \<Longrightarrow> num_le0 n \<longleftrightarrow> \<not> num_gt0 n"
  by (cases n) auto

lemma num_lt0_or_ge0: "n \<noteq> NaN \<Longrightarrow> num_lt0 n \<longleftrightarrow> \<not> num_ge0 n"
  by (cases n) auto

lemma check_payment_amount:
  assumes "getProp p ''paymentAmount'' \<noteq> JNum NaN"
  shows "\<exists>m \<in> set (rule_messages PaymentAmountPositive).
     (case getProp p ''paymentAmount'' of
          JNum n \<Rightarrow>
            (if num_le0 n then Inl (ValidationError ''paymentAmount must be greater than 0'')
             else Inr ())
        | _ \<Rightarrow> Inl (ValidationError ''paymentAmount must be a number'')) =
       (if rule_holds env p PaymentAmountPositive then Inr () else Inl (ValidationError m))"
  using assms by (cases "getProp p ''paymentAmount''") (auto simp: num_le0_or_gt0)

lemma check_pay_with_charge:
  assumes "getProp p ''payWithCharge'' \<noteq> JNum NaN"
  shows "\<exists>m \<in> set (rule_messages PayWithChargeNonNegative).
     (if getProp p ''payWithCharge'' \<noteq> JUndefined then
          (case getProp p ''payWithCharge'' of
             JNum n \<Rightarrow>
               (if num_lt0 n then Inl (ValidationError ''payWithCharge cannot be negative'')
                else Inr ())
           | _ \<Rightarrow> Inl (ValidationError ''payWithCharge must be a number''))
        else Inr ()) =
       (if rule_holds env p PayWithChargeNonNegative then Inr () else Inl (ValidationError m))"
  using assms
  by (cases "getProp p ''payWithCharge''") (auto simp: num_lt0_or_ge0 optional_amount_ok_def)

lemma check_emi:
  assumes "getProp p ''emi'' \<noteq> JNum NaN"
  shows "\<exists>m \<in> set (rule_messages EmiNonNegative).
     (if getProp p ''emi'' \<noteq> JUndefined then
          (case getProp p ''emi'' of
             JNum n \<Rightarrow>
               (if num_lt0 n then Inl (ValidationError ''emi cannot be negative'')
                else Inr ())
           | _ \<Rightarrow> Inl (ValidationError ''emi must be a number''))
        else Inr ()) =
       (if rule_holds env p EmiNonNegative then Inr () else Inl (ValidationError m))"
  using assms
  by (cases "getProp p ''emi''") (auto simp: num_lt0_or_ge0 optional_amount_ok_def)

text \<open>
  For parameters that are absent or an object, and whose numeric fields are not NaN, the
  validator reports the first violated rule in the order of the specification, and nothing
  when every rule holds.
\<close>

lemma validate_follows_rule_order:
  assumes typed: "p = JUndefined \<or> p = JNull \<or> (\<exists>ps. p = JObj ps)"
    and "getProp p ''paymentAmount'' \<noteq> JNum NaN"
    and "getProp p ''payWithCharge'' \<noteq> JNum NaN"
    and "getProp p ''emi'' \<noteq> JNum NaN"
  shows "agrees_with_rules env p"
proof (cases "truthy p")
  case False
  with typed have "p = JUndefined \<or> p = JNull" by auto
  then show ?thesis
    by (auto simp: agrees_with_rules_def first_violation_def rule_order_def
          validateInitiatePaymentParams_def)
next
  case True
  then have present: "rule_holds env p ParamsPresent" by auto
  obtain m1 where m1: "m1 \<in> set (rule_messages (RequiredString ''invoiceNumber''))"
    "validateRequiredString (getProp p ''invoiceNumber'') ''invoiceNumber'' =
       (if rule_holds env p (RequiredString ''invoiceNumber'') then Inr ()
        else Inl (ValidationError m1))"
    using check_required_string by blast
  obtain m2 where m2: "m2 \<in> set (rule_messages (RequiredString ''customerName''))"
    "validateRequiredString (getProp p ''customerName'') ''customerName'' =
       (if rule_holds env p (RequiredString ''customerName'') then Inr ()
        else Inl (ValidationError m2))"
    using check_required_string by blast
  obtain m3 where m3: "m3 \<in> set (rule_messages (RequiredString ''customerPhone''))"
    "validateRequiredString (getProp p ''customerPhone'') ''customerPhone'' =
       (if rule_holds env p (RequiredString ''customerPhone'') then Inr ()
        else Inl (ValidationError m3))"
    using check_required_string by blast
  obtain m4 where m4: "m4 \<in> set (rule_messages (RequiredString ''customerEmail''))"
    "validateRequiredString (getProp p ''customerEmail'') ''customerEmail'' =
       (if rule_holds env p (RequiredString ''customerEmail'') then Inr ()
        else Inl (ValidationError m4))"
    using check_required_string by blast
  obtain m5 where m5: "m5 \<in> set (rule_messages (RequiredString ''callbackUrl''))"
    "validateRequiredString (getProp p ''callbackUrl'') ''callbackUrl'' =
       (if rule_holds env p (RequiredString ''callbackUrl'') then Inr ()
        else Inl (ValidationError m5))"
    using check_required_string by blast
  obtain m6 where m6: "m6 \<in> set (rule_messages PaymentAmountPositive)"
    "(case getProp p ''paymentAmount'' of
          JNum n \<Rightarrow>
            (if num_le0 n then Inl (ValidationError ''paymentAmount must be greater than 0'')
             else Inr ())
        | _ \<Rightarrow> Inl (ValidationError ''paymentAmount must be a number'')) =
       (if rule_holds env p PaymentAmountPositive then Inr () else Inl (ValidationError m6))"
    using check_payment_amount [OF assms(2)] by blast
  obtain m7 where m7: "m7 \<in> set (rule_messages PayWithChargeNonNegative)"
    "(if getProp p ''payWithCharge'' \<noteq> JUndefined then
          (case getProp p ''payWithCharge'' of
             JNum n \<Rightarrow>
               (if num_lt0 n then Inl (ValidationError ''payWithCharge cannot be negative'')
                else Inr ())
           | _ \<Rightarrow> Inl (ValidationError ''payWithCharge must be a number''))
        else Inr ()) =
       (if rule_holds env p PayWithChargeNonNegative then Inr ()
        else Inl (ValidationError m7))"
    using check_pay_with_charge [OF assms(3)] by blast
  obtain m8 where m8: "m8 \<in> set (rule_messages EmiNonNegative)"
    "(if getProp p ''emi'' \<noteq> JUndefined then
          (case getProp p ''emi'' of
             JNum n \<Rightarrow>
               (if num_lt0 n then Inl (ValidationError ''emi cannot be negative'')
                else Inr ())
           | _ \<Rightarrow> Inl (ValidationError ''emi must be a number''))
        else Inr ()) =
       (if rule_holds env p EmiNonNegative then Inr () else Inl (ValidationError m8))"
    using check_emi [OF assms(4)] by blast
  have v: "validateInitiatePaymentParams env p =
     (if \<not> rule_holds env p (RequiredString ''invoiceNumber'') then Inl (ValidationError m1)
      else if \<not> rule_holds env p (RequiredString ''customerName'') then Inl (ValidationError m2)
      else if \<not> rule_holds env p (RequiredString ''customerPhone'') then Inl (ValidationError m3)
      else if \<not> rule_holds env p (RequiredString ''customerEmail'') then Inl (ValidationError m4)
      else if \<not> rule_holds env p (RequiredString ''callbackUrl'') then Inl (ValidationError m5)
      else if \<not> rule_holds env p PaymentAmountPositive then Inl (ValidationError m6)
      else if \<not> rule_holds env p PayWithChargeNonNegative then Inl (ValidationError m7)
      else if \<not> rule_holds env p EmiNonNegative then Inl (ValidationError m8)
      else if \<not> rule_holds env p EmailPattern
      then Inl (ValidationError ''customerEmail must be a valid email address'')
      else if \<not> rule_holds env p CallbackUrlHttp
      then Inl (ValidationError ''callbackUrl must be a valid URL'')
      else Inr ())"
    unfolding validateInitiatePaymentParams_def m1(2) m2(2) m3(2) m4(2) m5(2) m6(2) m7(2) m8(2)
    using True by (simp add: andThen_if andThen_def check_email del: rule_holds.simps(2-6))
  show ?thesis
    unfolding agrees_with_rules_def first_violation_def rule_order_def v
    using present m1(1) m2(1) m3(1) m4(1) m5(1) m6(1) m7(1) m8(1)
    by (simp add: list_ex_iff del: rule_holds.simps)
qed

lemma valid_params_iff_rules:
  "valid_params env p \<longleftrightarrow> first_violation env p = None \<and> optional_strings_ok env p"
  by (auto simp: valid_params_def other_fields_valid_def first_violation_def rule_order_def)

text \<open>
  Claim C1. buildInitiatePaymentRequest throws a ValidationError for the first violated rule,
  in the order of \<open>rule_order\<close>, and throws nothing when every rule holds. The code breaks
  this where paymentAmount is NaN: the value is of type number and \<^verbatim>\<open>NaN <= 0\<close> is false, so
  the rule that paymentAmount is greater than 0 is violated, and is the first one violated,
  while the validator throws nothing and the builder sends \<^verbatim>\<open>payment_amount=NaN\<close>.
\<close>

theorem nan_payment_amount_accepted:
  "first_violation sample_builtins (JObj (sample_params_amount NaN))
     = Some PaymentAmountPositive
   \<and> validateInitiatePaymentParams sample_builtins
        (JObj (sample_params_amount NaN)) = Inr ()
   \<and> buildInitiatePaymentRequest sample_builtins \<lparr>config = sample_config\<rparr>
        (JObj (sample_params_amount NaN))
      = Inr \<lparr> url = ''https://sandbox.paystation.com.bd/api/initiate-payment'',
               httpMethod = ''POST'', headers = requestHeaders,
               body = [(''merchant_id'', ''m1''), (''password'', ''pw''),
                       (''invoice_number'', ''INV-1''), (''payment_amount'', ''NaN''),
                       (''customer_name'', ''John Doe''), (''customer_phone'', ''017''),
                       (''customer_email'', ''a@b.io''),
                       (''callback_url'', ''https://x.com/cb'')] \<rparr>"
proof -
  have o: "other_fields_valid sample_builtins (JObj (sample_params_amount NaN))"
    by (rule sample_other_fields_valid)
  have f: "first_violation sample_builtins
      (JObj (sample_params_amount NaN)) = Some PaymentAmountPositive"
    using o
    by (simp add: first_violation_def rule_order_def other_fields_valid_def)
       (simp add: sample_params_amount_def)
  have v: "validateInitiatePaymentParams sample_builtins
        (JObj (sample_params_amount NaN)) = Inr ()"
    by (simp add: validate_amount_only [OF o]) (simp add: sample_params_amount_def)
  have b: "buildInitiatePaymentRequest sample_builtins \<lparr>config = sample_config\<rparr>
        (JObj (sample_params_amount NaN))
      = Inr \<lparr> url = ''https://sandbox.paystation.com.bd/api/initiate-payment'',
               httpMethod = ''POST'', headers = requestHeaders,
               body = [(''merchant_id'', ''m1''), (''password'', ''pw''),
                       (''invoice_number'', ''INV-1''), (''payment_amount'', ''NaN''),
                       (''customer_name'', ''John Doe''), (''customer_phone'', ''017''),
                       (''customer_email'', ''a@b.io''),
                       (''callback_url'', ''https://x.com/cb'')] \<rparr>"
    by (simp add: v buildInitiatePaymentRequest_def
          sample_base_url sample_credentials append_param_def onlyIf_def)
       (simp add: sample_params_def sample_params_amount_def sample_builtins_def)
  show ?thesis using f v b by simp
qed
end
